theory Spec2Isabelle
  imports Complex_Main "HOL-Library.Log_Nat"
begin

section \<open>JavaScript values and library functions used by the agent\<close>

text \<open>
  Values of type \<open>any\<close> that come out of \<open>JSON.parse\<close> are trees; \<open>undefined\<close> is the
  \<open>None\<close> of a \<open>json option\<close>. The keys of a parsed object are distinct (\<open>JSON.parse\<close>
  keeps one value per key). Numbers are rationals. The confidences of decisions and of
  pattern entries are the exact values of IEEE doubles, and the arithmetic on them rounds
  as the doubles do (see \<open>double\<close>); counters, response times and their averages are
  exact, with the non-finite results of a division made explicit (see \<open>jsnum\<close>).
\<close>

datatype json =
    JNull
  | JBool bool
  | JNum rat
  | JStr string
  | JArr "json list"
  | JObj "(string \<times> json) list"

text \<open>Errors carry the \<open>message\<close> property that the catch blocks print; the texts of the
  errors that the engine raises itself are those of Node.\<close>

datatype error = TypeError string | Error string

fun message :: "error \<Rightarrow> string" where
  "message (TypeError m) = m"
| "message (Error m) = m"

text \<open>Property read \<open>v.k\<close> on a parsed value: it throws on \<open>null\<close> and \<open>undefined\<close>, and
  gives \<open>undefined\<close> on a value that has no such property (array indices and the
  properties of the prototypes are not read by this code through \<open>get_prop\<close>).\<close>

fun get_prop :: "json option \<Rightarrow> string \<Rightarrow> error + json option" where
  "get_prop None k =
     Inl (TypeError (''Cannot read properties of undefined (reading '' @ [CHR 0x27] @ k
                     @ [CHR 0x27] @ '')''))"
| "get_prop (Some JNull) k =
     Inl (TypeError (''Cannot read properties of null (reading '' @ [CHR 0x27] @ k
                     @ [CHR 0x27] @ '')''))"
| "get_prop (Some (JObj kvs)) k = Inr (map_of kvs k)"
| "get_prop (Some v) k = Inr None"

text \<open>\<open>Array.prototype.slice(start)\<close> with an integral argument: a negative start counts
  from the end, and both ends are clamped to the array. \<open>slice(-0)\<close> is \<open>slice(0)\<close>.\<close>

definition slice :: "int \<Rightarrow> 'a list \<Rightarrow> 'a list" where
  "slice start xs =
     (let n = int (length xs);
          k = (if start < 0 then max (n + start) 0 else min start n)
      in drop (nat k) xs)"

text \<open>\<open>String.prototype.replace(pat, rep)\<close> with a string pattern: the first occurrence only.\<close>

fun replace :: "string \<Rightarrow> string \<Rightarrow> string \<Rightarrow> string" where
  "replace pat rep [] = (if pat = [] then rep else [])"
| "replace pat rep (c # cs) =
     (if take (length pat) (c # cs) = pat then rep @ drop (length pat) (c # cs)
      else c # replace pat rep cs)"

fun str_includes :: "string \<Rightarrow> string \<Rightarrow> bool" where
  "str_includes [] p = (p = [])"
| "str_includes (c # cs) p = (take (length p) (c # cs) = p \<or> str_includes cs p)"

text \<open>Strings are sequences of 8-bit characters here, read as the code units 0 to 255, so
  \<open>toLowerCase\<close> and the class \<open>\s\<close> are those of Latin-1: the capital letters are
  \<open>A\<close> to \<open>Z\<close> and the code units 192 to 222 without the multiplication sign 215, the
  white space is the ASCII white space and the no-break space.\<close>

definition lower_char :: "char \<Rightarrow> char" where
  "lower_char c =
     (let n = (of_char c :: nat)
      in if (65 \<le> n \<and> n \<le> 90) \<or> (192 \<le> n \<and> n \<le> 222 \<and> n \<noteq> 215)
         then char_of (n + 32) else c)"

definition toLowerCase :: "string \<Rightarrow> string" where
  "toLowerCase s = map lower_char s"

definition is_space :: "char \<Rightarrow> bool" where
  "is_space c = ((of_char c :: nat) \<in> {9, 10, 11, 12, 13, 32, 160})"

text \<open>\<open>s.split(/\s+/)\<close>: the pieces between maximal runs of white space; a run at either
  end leaves an empty piece there, and the empty string splits into one empty piece.\<close>

function split_ws :: "string \<Rightarrow> string list" where
  "split_ws [] = [[]]"
| "split_ws (c # cs) =
     (if is_space c then [] # split_ws (dropWhile is_space cs)
      else (case split_ws cs of [] \<Rightarrow> [[c]] | w # ws \<Rightarrow> (c # w) # ws))"
  by pat_completeness auto
termination
  by (relation "measure length") (auto simp: length_dropWhile_le less_Suc_eq_le)

text \<open>Decimal rendering of a count inside a template string.\<close>

function show_nat :: "nat \<Rightarrow> string" where
  "show_nat n =
     (if n < 10 then [char_of (48 + n)] else show_nat (n div 10) @ [char_of (48 + n mod 10)])"
  by pat_completeness auto
termination
  by (relation "measure id") auto

text \<open>The result of a division of two finite numbers, and its comparison with a finite
  bound: \<open>0 / 0\<close> is \<open>NaN\<close>, which compares false with everything.\<close>

datatype jsnum = Fin rat | PosInf | NegInf | NaN

definition js_div :: "rat \<Rightarrow> rat \<Rightarrow> jsnum" where
  "js_div a b =
     (if b \<noteq> 0 then Fin (a / b)
      else if a = 0 then NaN
      else if a > 0 then PosInf else NegInf)"

fun js_less :: "jsnum \<Rightarrow> rat \<Rightarrow> bool" where
  "js_less (Fin a) c = (a < c)"
| "js_less NegInf c = True"
| "js_less PosInf c = False"
| "js_less NaN c = False"

subsection \<open>Doubles\<close>

text \<open>
  \<open>double x\<close> is the IEEE double nearest to the rational \<open>x\<close>, ties to the even mantissa:
  the value of a decimal literal and of the result of an addition or subtraction of two
  doubles. \<open>binade x\<close> is the exponent \<open>e\<close> with \<open>2^e \<le> |x| < 2^(e+1)\<close>; a double has 53
  bits of mantissa, and below \<open>2^-1022\<close> the spacing stays that of the subnormals. An
  overflow to infinity is not modelled; the sums and differences formed here do not
  overflow. The rounding is written out for the confidences of decisions and patterns;
  the response times and the sums and quotients of the metrics are kept exact.
\<close>

definition round_even :: "rat \<Rightarrow> int" where
  "round_even z =
     (let f = \<lfloor>z\<rfloor>; r = z - of_int f
      in if r < 1 / 2 then f else if r > 1 / 2 then f + 1 else if even f then f else f + 1)"

definition binade :: "rat \<Rightarrow> int" where
  "binade x =
     (let (p, q) = quotient_of \<bar>x\<bar>; a = bitlen p - bitlen q
      in if 2 powi a \<le> \<bar>x\<bar> then a else a - 1)"

definition double :: "rat \<Rightarrow> rat" where
  "double x =
     (if x = 0 then 0
      else let ulp = 2 powi (max (binade x) (- 1022) - 52)
           in of_int (round_even (x / ulp)) * ulp)"

section \<open>The agent's data (types.ts)\<close>

text \<open>
  Fields keep the names of the interfaces; \<open>id\<close>, \<open>type\<close>, \<open>content\<close>, \<open>name\<close> and
  \<open>confidence\<close> occur in several interfaces and get the interface as a prefix where they
  would clash. \<open>uuidv4()\<close> draws from the engine's supply of identifiers. Time stamps are
  readings of the wall clock and are left out; the elapsed time of a request is an input.
  \<open>'w\<close> is the world outside the agent that a tool's \<open>execute\<close> acts on.
\<close>

datatype role = User | Assistant | System

record message_metadata =
  decisionId :: nat
  responseTime :: rat

record agent_message =
  message_id :: nat
  role :: role
  content :: string
  metadata :: "message_metadata option"

datatype tool_category = File | Web | Code | SystemCat | Deployment | Communication

fun category_name :: "tool_category \<Rightarrow> string" where
  "category_name File = ''file''"
| "category_name Web = ''web''"
| "category_name Code = ''code''"
| "category_name SystemCat = ''system''"
| "category_name Deployment = ''deployment''"
| "category_name Communication = ''communication''"

record 'w agent_tool =
  tool_id :: string
  tool_name :: string
  description :: string
  category :: tool_category
  parameters :: json
  execute :: "json option \<Rightarrow> 'w \<Rightarrow> (error + json) \<times> 'w"
  safetyCheck :: "(json option \<Rightarrow> error + bool) option"

datatype decision_type = tool_execution | response_generation | planning | learning

fun decision_type_name :: "decision_type \<Rightarrow> string" where
  "decision_type_name tool_execution = ''tool_execution''"
| "decision_type_name response_generation = ''response_generation''"
| "decision_type_name planning = ''planning''"
| "decision_type_name learning = ''learning''"

text \<open>The \<open>action\<close> payload of a decision, one shape per branch of \<open>determineBestAction\<close>.
  The text of a reply action is \<open>None\<close> when the value found is an object and not a
  string.\<close>

datatype action =
    ToolAction string "json option"
  | PlanAction json "json option"
  | ReplyAction "string option"

record agent_decision =
  decision_id :: nat
  decision_type :: decision_type
  confidence :: rat
  reasoning :: string
  action :: action

datatype memory_type = conversation | tool_result | learning_note | pattern_note

datatype memory_content =
    Conversation agent_message agent_message agent_decision
  | ToolResult string "json option" json
  | LearningNote string

record agent_memory =
  memory_id :: nat
  memory_type :: memory_type
  memory_content :: memory_content
  relevance :: "rat option"

datatype safety_level = Low | Medium | High

record 'w agent_config =
  config_name :: string
  config_description :: string
  capabilities :: "string list"
  safetyLevel :: safety_level
  learningEnabled :: bool
  maxMemorySize :: int
  config_tools :: "'w agent_tool list"

record performance =
  totalInteractions :: nat
  successfulActions :: nat
  averageResponseTime :: rat
  learningProgress :: rat

record 'w agent_state =
  config :: "'w agent_config"
  messages :: "agent_message list"
  memory :: "agent_memory list"
  decisions :: "agent_decision list"
  performance :: performance

section \<open>AgentEngine (agent-engine.ts)\<close>

text \<open>A \<open>Map\<close> keeps its keys in insertion order; \<open>set\<close> on a key that is present
  replaces the value in place.\<close>

fun map_set :: "'k \<Rightarrow> 'v \<Rightarrow> ('k \<times> 'v) list \<Rightarrow> ('k \<times> 'v) list" where
  "map_set k v [] = [(k, v)]"
| "map_set k v ((k', v') # kvs) =
     (if k' = k then (k, v) # kvs else (k', v') # map_set k v kvs)"

record 'w engine =
  state :: "'w agent_state"
  tools :: "(string \<times> 'w agent_tool) list"
  uuid_supply :: nat
  world :: 'w

definition new_engine :: "'w agent_config \<Rightarrow> 'w \<Rightarrow> 'w engine" where
  "new_engine cfg w =
     \<lparr> state = \<lparr> config = cfg, messages = [], memory = [], decisions = [],
                 performance = \<lparr> totalInteractions = 0, successfulActions = 0,
                                 averageResponseTime = 0, learningProgress = 0 \<rparr> \<rparr>,
       tools = fold (\<lambda>t m. map_set (tool_id t) t m) (config_tools cfg) [],
       uuid_supply = 0,
       world = w \<rparr>"

text \<open>\<open>storeMemory\<close>. The capacity \<open>maxMemorySize\<close> is a \<open>number\<close>; the model has the
  integral ones.\<close>

definition storeMemory :: "agent_memory \<Rightarrow> 'w engine \<Rightarrow> 'w engine" where
  "storeMemory m e =
     (let s = state e;
          mem = memory s @ [m];
          mem' = (if int (length mem) > maxMemorySize (config s)
                  then slice (- maxMemorySize (config s)) mem else mem)
      in e\<lparr> state := s\<lparr> memory := mem' \<rparr> \<rparr>)"

definition uuidv4 :: "'w engine \<Rightarrow> nat \<times> 'w engine" where
  "uuidv4 e = (uuid_supply e, e\<lparr> uuid_supply := Suc (uuid_supply e) \<rparr>)"

definition updatePerformance :: "rat \<Rightarrow> bool \<Rightarrow> 'w engine \<Rightarrow> 'w engine" where
  "updatePerformance rt successful e =
     (let s = state e;
          p = performance s;
          total = totalInteractions p + 1;
          succeeded = (if successful then successfulActions p + 1 else successfulActions p);
          currentAvg = averageResponseTime p
      in e\<lparr> state := s\<lparr> performance := p\<lparr>
            totalInteractions := total,
            successfulActions := succeeded,
            averageResponseTime := (currentAvg * (of_nat total - 1) + rt) / of_nat total \<rparr> \<rparr> \<rparr>)"

text \<open>The context object: the properties \<open>getContext\<close> writes, by name. Reading a
  property that is not among them gives \<open>undefined\<close> (\<open>None\<close>).\<close>

datatype context_value =
    MessageList "agent_message list"
  | MemoryList "agent_memory list"
  | PerformanceValue performance
  | KeyList "string list"

type_synonym agent_context = "(string \<times> context_value) list"

definition getContext :: "'w engine \<Rightarrow> agent_context" where
  "getContext e =
     [(''recentMessages'', MessageList (slice (- 10) (messages (state e)))),
      (''memory'', MemoryList (slice (- 20) (memory (state e)))),
      (''performance'', PerformanceValue (performance (state e))),
      (''availableTools'', KeyList (map fst (tools e)))]"

text \<open>The classifier is the body of \<open>analyzeIntent\<close>'s \<open>try\<close> block: the call of the
  chat completion and \<open>JSON.parse\<close> of its answer. It gives the parsed value or fails.
  The prompt is built before the \<open>try\<close> from the message and \<open>JSON.stringify(context)\<close>,
  which does not fail on the values of this model.\<close>

type_synonym classifier = "string \<Rightarrow> agent_context \<Rightarrow> error + json"

definition fallback_intent :: json where
  "fallback_intent =
     JObj [(''intent'', JStr ''response_generation''), (''entities'', JObj []),
           (''urgency'', JStr ''medium''), (''complexity'', JStr ''simple'')]"

definition analyzeIntent :: "classifier \<Rightarrow> string \<Rightarrow> agent_context \<Rightarrow> json" where
  "analyzeIntent classify msg ctx =
     (case classify msg ctx of Inl err \<Rightarrow> fallback_intent | Inr parsed \<Rightarrow> parsed)"

record chosen_action =
  chosen_type :: decision_type
  chosen_confidence :: rat
  chosen_reasoning :: string
  chosen_action :: action

text \<open>\<open>primaryIntent.replace(...)\<close> needs a string: anything else has no \<open>replace\<close>.\<close>

fun intent_category :: "json option \<Rightarrow> error + string" where
  "intent_category (Some (JStr s)) =
     Inr (replace ''_generation'' [] (replace ''_search'' [] (replace ''_operation'' [] s)))"
| "intent_category None = Inl (TypeError ''Cannot read properties of undefined (reading 'replace')'')"
| "intent_category (Some JNull) = Inl (TypeError ''Cannot read properties of null (reading 'replace')'')"
| "intent_category (Some v) = Inl (TypeError ''primaryIntent.replace is not a function'')"

fun intent_text :: "json option \<Rightarrow> string" where
  "intent_text (Some (JStr s)) = s"
| "intent_text v = []"

text \<open>\<open>v[v.length - 1]?.content || ''\<close> for the value \<open>v\<close> found under \<open>messages\<close>: the
  content of the last message of a message list; the content object of the last record
  of a list of memory records (not a string: \<open>None\<close>); the empty string for an empty
  list and for a value whose last element has no \<open>content\<close>.\<close>

fun latest_content :: "context_value \<Rightarrow> string option" where
  "latest_content (MessageList ms) = (if ms = [] then Some [] else Some (content (last ms)))"
| "latest_content (MemoryList ms) = (if ms = [] then Some [] else None)"
| "latest_content (PerformanceValue p) = Some []"
| "latest_content (KeyList ks) = Some []"

text \<open>The callback of the \<open>filter\<close> over the tools evaluates \<open>primaryIntent.replace(...)\<close>
  once per tool: with an empty registry nothing is evaluated, otherwise the first tool
  raises when the intent is not a string.\<close>

fun relevant_tools :: "json option \<Rightarrow> 'w agent_tool list \<Rightarrow> error + 'w agent_tool list" where
  "relevant_tools primaryIntent [] = Inr []"
| "relevant_tools primaryIntent (tool # rest) =
     (case intent_category primaryIntent of
        Inl err \<Rightarrow> Inl err
      | Inr wanted \<Rightarrow>
          (case relevant_tools primaryIntent rest of
             Inl err \<Rightarrow> Inl err
           | Inr kept \<Rightarrow>
               Inr (if category_name (category tool) = wanted then tool # kept else kept)))"

definition determineBestAction :: "json \<Rightarrow> agent_context \<Rightarrow> 'w engine \<Rightarrow> error + chosen_action" where
  "determineBestAction intent ctx e =
     (case get_prop (Some intent) ''intent'' of
        Inl err \<Rightarrow> Inl err
      | Inr primaryIntent \<Rightarrow>
          let entities = (case get_prop (Some intent) ''entities'' of Inr v \<Rightarrow> v | Inl x \<Rightarrow> None);
              complexity = (case get_prop (Some intent) ''complexity'' of Inr v \<Rightarrow> v | Inl x \<Rightarrow> None)
          in (case relevant_tools primaryIntent (map snd (tools e)) of
                Inl err \<Rightarrow> Inl err
              | Inr relevantTools \<Rightarrow>
                  if relevantTools \<noteq> [] \<and> safetyLevel (config (state e)) \<noteq> High then
                    Inr \<lparr> chosen_type = tool_execution,
                          chosen_confidence = double (8 / 10),
                          chosen_reasoning = ''Found '' @ show_nat (length relevantTools)
                             @ '' relevant tools for intent: '' @ intent_text primaryIntent,
                          chosen_action = ToolAction (tool_id (hd relevantTools)) entities \<rparr>
                  else if complexity = Some (JStr ''complex'') \<and> learningEnabled (config (state e)) then
                    Inr \<lparr> chosen_type = planning,
                          chosen_confidence = double (7 / 10),
                          chosen_reasoning = ''Complex request requires planning'',
                          chosen_action = PlanAction intent entities \<rparr>
                  else (case map_of ctx ''messages'' of
                          None \<Rightarrow> Inl (TypeError ''Cannot read properties of undefined (reading 'length')'')
                        | Some v \<Rightarrow>
                            Inr \<lparr> chosen_type = response_generation,
                                  chosen_confidence = double (6 / 10),
                                  chosen_reasoning = ''Default response generation'',
                                  chosen_action = ReplyAction (latest_content v) \<rparr>)))"

definition makeDecision :: "classifier \<Rightarrow> string \<Rightarrow> 'w engine \<Rightarrow> (error + agent_decision) \<times> 'w engine" where
  "makeDecision classify msg e =
     (let ctx = getContext e;
          intent = analyzeIntent classify msg ctx
      in (case determineBestAction intent ctx e of
            Inl err \<Rightarrow> (Inl err, e)
          | Inr chosen \<Rightarrow>
              let (uid, e') = uuidv4 e
              in (Inr \<lparr> decision_id = uid,
                        decision_type = chosen_type chosen,
                        confidence = chosen_confidence chosen,
                        reasoning = chosen_reasoning chosen,
                        action = chosen_action chosen \<rparr>, e')))"

text \<open>\<open>executeTool\<close> destructures \<open>toolId\<close> and \<open>parameters\<close> from the action; an action
  of another branch has neither, and \<open>this.tools.get(undefined)\<close> finds nothing.
  \<open>JSON.stringify(result, null, 2)\<close> is the parameter \<open>stringify\<close>. A safety check that
  throws is outside the \<open>try\<close> and leaves \<open>executeTool\<close> as an exception.\<close>

definition executeTool ::
  "(json \<Rightarrow> string) \<Rightarrow> action \<Rightarrow> 'w engine \<Rightarrow> (error + string) \<times> 'w engine" where
  "executeTool stringify act e =
     (case act of
        ToolAction toolId params \<Rightarrow>
          (case map_of (tools e) toolId of
             None \<Rightarrow> (Inr (''Tool not found: '' @ toolId), e)
           | Some tool \<Rightarrow>
               (case (case safetyCheck tool of
                        None \<Rightarrow> Inr True
                      | Some check \<Rightarrow> check params) of
                  Inl err \<Rightarrow> (Inl err, e)
                | Inr False \<Rightarrow> (Inr (''Safety check failed for tool: '' @ tool_name tool), e)
                | Inr True \<Rightarrow>
                    let (outcome, w') = execute tool params (world e);
                        e1 = e\<lparr> world := w' \<rparr>
                    in (case outcome of
                          Inl err \<Rightarrow>
                            (Inr (''Error executing '' @ tool_name tool @ '': '' @ message err), e1)
                        | Inr result \<Rightarrow>
                            let (uid, e2) = uuidv4 e1;
                                e3 = storeMemory \<lparr> memory_id = uid, memory_type = tool_result,
                                       memory_content = ToolResult toolId params result,
                                       relevance = None \<rparr> e2
                            in (Inr (''Successfully executed '' @ tool_name tool @ ''. Result: ''
                                      @ stringify result), e3))))
      | _ \<Rightarrow> (Inr ''Tool not found: undefined'', e))"

text \<open>The text generator is the body of \<open>generateResponse\<close>'s \<open>try\<close> block.\<close>

type_synonym generator = "string \<Rightarrow> agent_context \<Rightarrow> error + string"

definition generateResponse :: "generator \<Rightarrow> string \<Rightarrow> 'w engine \<Rightarrow> string" where
  "generateResponse generate msg e =
     (case generate msg (getContext e) of
        Inr text \<Rightarrow> text
      | Inl err \<Rightarrow>
          ''I understand your message: '' @ [CHR 0x22] @ msg @ [CHR 0x22]
          @ ''. However, I'' @ [CHR 0x27]
          @ ''m having trouble generating a response right now. Please try again.'')"

definition createPlan :: "string \<Rightarrow> string" where
  "createPlan msg =
     ''I'' @ [CHR 0x27] @ ''ll create a plan to handle your complex request: ''
     @ [CHR 0x22] @ msg @ [CHR 0x22, CHR 0x0A, CHR 0x0A]
     @ ''This requires multiple steps. Let me break it down:'' @ [CHR 0x0A]
     @ ''1. Analyze requirements'' @ [CHR 0x0A]
     @ ''2. Identify necessary tools'' @ [CHR 0x0A]
     @ ''3. Execute step-by-step'' @ [CHR 0x0A]
     @ ''4. Validate results'' @ [CHR 0x0A, CHR 0x0A]
     @ ''Would you like me to proceed with this plan?''"

definition learnFromInteraction :: "string \<Rightarrow> 'w engine \<Rightarrow> string \<times> 'w engine" where
  "learnFromInteraction msg e =
     (let s = state e;
          p = performance s;
          e1 = e\<lparr> state := s\<lparr> performance := p\<lparr> learningProgress := learningProgress p + 1 / 10 \<rparr> \<rparr> \<rparr>;
          (uid, e2) = uuidv4 e1;
          e3 = storeMemory \<lparr> memory_id = uid, memory_type = learning_note,
                 memory_content = LearningNote msg, relevance = None \<rparr> e2
      in (''I'' @ [CHR 0x27] @ ''m learning from this interaction to better serve you in the future.'', e3))"

text \<open>\<open>processMessage\<close>. \<open>elapsed\<close> is \<open>Date.now() - startTime\<close>. The decision is made
  before the \<open>try\<close>: an exception of \<open>makeDecision\<close> rejects the whole call (\<open>Inl\<close>).
  An exception inside the \<open>try\<close> is answered with the text of the \<open>catch\<close>.\<close>

definition execute_decision ::
  "generator \<Rightarrow> (json \<Rightarrow> string) \<Rightarrow> string \<Rightarrow> agent_decision \<Rightarrow> 'w engine
     \<Rightarrow> (error + string) \<times> 'w engine" where
  "execute_decision generate stringify msg decision e =
     (case decision_type decision of
        tool_execution \<Rightarrow> executeTool stringify (action decision) e
      | response_generation \<Rightarrow> (Inr (generateResponse generate msg e), e)
      | planning \<Rightarrow> (Inr (createPlan msg), e)
      | learning \<Rightarrow> (let (r, e') = learnFromInteraction msg e in (Inr r, e')))"

text \<open>The three groups of statements of \<open>processMessage\<close> that write the logs: the user
  message at the start, the decision, and the completion of a request whose action
  returned a text.\<close>

definition receive_message :: "string \<Rightarrow> 'w engine \<Rightarrow> agent_message \<times> 'w engine" where
  "receive_message msg e =
     (let (uid, e1) = uuidv4 e;
          userMessage = \<lparr> message_id = uid, role = User, content = msg, metadata = None \<rparr>
      in (userMessage,
          e1\<lparr> state := (state e1)\<lparr> messages := messages (state e1) @ [userMessage] \<rparr> \<rparr>))"

definition record_decision :: "agent_decision \<Rightarrow> 'w engine \<Rightarrow> 'w engine" where
  "record_decision decision e =
     e\<lparr> state := (state e)\<lparr> decisions := decisions (state e) @ [decision] \<rparr> \<rparr>"

definition complete_request ::
  "rat \<Rightarrow> agent_message \<Rightarrow> agent_decision \<Rightarrow> string \<Rightarrow> 'w engine \<Rightarrow> 'w engine" where
  "complete_request elapsed userMessage decision response e =
     (let e1 = updatePerformance elapsed True e;
          (aid, e2) = uuidv4 e1;
          assistantMessage = \<lparr> message_id = aid, role = Assistant, content = response,
             metadata = Some \<lparr> decisionId = decision_id decision, responseTime = elapsed \<rparr> \<rparr>;
          e3 = e2\<lparr> state := (state e2)\<lparr> messages := messages (state e2) @ [assistantMessage] \<rparr> \<rparr>;
          (mid, e4) = uuidv4 e3
      in storeMemory \<lparr> memory_id = mid, memory_type = conversation,
           memory_content = Conversation userMessage assistantMessage decision,
           relevance = None \<rparr> e4)"

definition processMessage ::
  "classifier \<Rightarrow> generator \<Rightarrow> (json \<Rightarrow> string) \<Rightarrow> rat \<Rightarrow> string \<Rightarrow> 'w engine
     \<Rightarrow> (error + string) \<times> 'w engine" where
  "processMessage classify generate stringify elapsed msg e =
     (let (userMessage, e2) = receive_message msg e
      in (case makeDecision classify msg e2 of
            (Inl err, e3) \<Rightarrow> (Inl err, e3)
          | (Inr decision, e3) \<Rightarrow>
              (case execute_decision generate stringify msg decision (record_decision decision e3) of
                 (Inl err, e5) \<Rightarrow>
                   (Inr (''I encountered an error: '' @ message err),
                    updatePerformance elapsed False e5)
               | (Inr response, e5) \<Rightarrow>
                   (Inr response, complete_request elapsed userMessage decision response e5))))"

subsection \<open>Import of a serialised state\<close>

text \<open>
  \<open>importState\<close> assigns whatever \<open>JSON.parse\<close> returns to \<open>this.state\<close> and fills
  \<open>this.tools\<close> with parsed values, so after it the two private fields need not hold
  typed values any more. The operation is modelled on these two fields, each either as
  the constructor and the typed methods left it or as parsed JSON. \<open>parse\<close> is
  \<open>JSON.parse\<close> (\<open>None\<close>: a syntax error). A \<open>Map\<close> compares keys by identity when they
  are objects, and the objects of a parsed document are all distinct.
\<close>

datatype 'w state_field = Built "'w agent_state" | Raw json

datatype 'w tool_value = Registered "'w agent_tool" | RawTool json

record 'w engine_fields =
  state_field :: "'w state_field"
  tools_field :: "(json option \<times> 'w tool_value) list"

definition fields_of :: "'w engine \<Rightarrow> 'w engine_fields" where
  "fields_of e =
     \<lparr> state_field = Built (state e),
       tools_field = map (\<lambda>(k, t). (Some (JStr k), Registered t)) (tools e) \<rparr>"

fun same_key :: "json option \<Rightarrow> json option \<Rightarrow> bool" where
  "same_key (Some (JArr xs)) k = False"
| "same_key (Some (JObj kvs)) k = False"
| "same_key k' k = (k' = k)"

fun raw_map_set :: "json option \<Rightarrow> 'v \<Rightarrow> (json option \<times> 'v) list \<Rightarrow> (json option \<times> 'v) list" where
  "raw_map_set k v [] = [(k, v)]"
| "raw_map_set k v ((k', v') # kvs) =
     (if same_key k' k then (k, v) # kvs else (k', v') # raw_map_set k v kvs)"

text \<open>The \<open>forEach\<close> over the imported tools: it stops at the first element whose \<open>id\<close>
  cannot be read, with the entries set so far.\<close>

fun rebuild_tools ::
  "json list \<Rightarrow> (json option \<times> 'w tool_value) list
     \<Rightarrow> error option \<times> (json option \<times> 'w tool_value) list" where
  "rebuild_tools [] m = (None, m)"
| "rebuild_tools (tool # rest) m =
     (case get_prop (Some tool) ''id'' of
        Inl err \<Rightarrow> (Some err, m)
      | Inr key \<Rightarrow> rebuild_tools rest (raw_map_set key (RawTool tool) m))"

definition importState ::
  "(string \<Rightarrow> json option) \<Rightarrow> string \<Rightarrow> 'w engine_fields \<Rightarrow> (error + unit) \<times> 'w engine_fields" where
  "importState parse stateJson f =
     (case parse stateJson of
        None \<Rightarrow> (Inl (Error ''Invalid state format''), f)
      | Some importedState \<Rightarrow>
          let f1 = f\<lparr> state_field := Raw importedState \<rparr>;
              f2 = f1\<lparr> tools_field := [] \<rparr>
          in (case get_prop (Some importedState) ''config'' of
                Inl err \<Rightarrow> (Inl (Error ''Invalid state format''), f2)
              | Inr cfg \<Rightarrow>
                  (case get_prop cfg ''tools'' of
                     Inr (Some (JArr ts)) \<Rightarrow>
                       (case rebuild_tools ts [] of
                          (None, m) \<Rightarrow> (Inr (), f2\<lparr> tools_field := m \<rparr>)
                        | (Some err, m) \<Rightarrow>
                            (Inl (Error ''Invalid state format''), f2\<lparr> tools_field := m \<rparr>))
                   | _ \<Rightarrow> (Inl (Error ''Invalid state format''), f2))))"

section \<open>LearningEngine (learning.ts)\<close>

text \<open>
  A pattern entry. The seeded entries have no \<open>occurrences\<close> property (\<open>None\<close>). The
  \<open>response\<close> of a learned entry is the decision's type, a string.
\<close>

record pattern_data =
  patterns :: "string list"
  response :: string
  pattern_confidence :: rat
  occurrences :: "nat option"

record perf_entry =
  entry_decisionType :: decision_type
  entry_confidence :: rat
  entry_responseTime :: rat
  success :: bool

text \<open>The \<open>context\<close> of \<open>learnFromInteraction\<close> has type \<open>any\<close>; the engine reads
  \<open>context.performance\<close> (with its counters), \<open>context.memory.length\<close> and
  \<open>context.responseTime\<close>. Each of the three may be absent (\<open>None\<close>). The page that
  drives the engine passes the agent's state, see \<open>context_of_state\<close>.\<close>

record learn_context =
  ctx_performance :: "performance option"
  ctx_memory :: "agent_memory list option"
  ctx_responseTime :: "rat option"

definition context_of_state :: "'w agent_state \<Rightarrow> learn_context" where
  "context_of_state s =
     \<lparr> ctx_performance = Some (performance s), ctx_memory = Some (memory s),
       ctx_responseTime = None \<rparr>"

text \<open>A rule's \<open>condition\<close> is \<open>None\<close> when the property is not a function, as in every
  rule that came out of \<open>JSON.parse\<close>.\<close>

record adaptation_rule =
  condition :: "(learn_context \<Rightarrow> error + bool) option"
  rule_action :: string
  priority :: rat

datatype log_line =
    Log string
  | LogInsight string string agent_decision "string list" bool
  | LogImportFailed

record learning_engine =
  patterns_table :: "(string \<times> pattern_data) list"
  performanceHistory :: "perf_entry list"
  adaptationRules :: "(string \<times> adaptation_rule) list"
  console :: "log_line list"

definition initializePatterns ::
  "(string \<times> pattern_data) list \<Rightarrow> (string \<times> pattern_data) list" where
  "initializePatterns tbl =
     map_set ''system_command''
       \<lparr> patterns = [''run command'', ''execute'', ''system'', ''terminal'', ''bash''],
         response = ''system'', pattern_confidence = double (7 / 10), occurrences = None \<rparr>
    (map_set ''code_request''
       \<lparr> patterns = [''generate code'', ''write code'', ''create function'', ''implement'', ''code''],
         response = ''code'', pattern_confidence = double (8 / 10), occurrences = None \<rparr>
    (map_set ''file_operation''
       \<lparr> patterns = [''read file'', ''write file'', ''delete file'', ''create file'', ''list files''],
         response = ''file'', pattern_confidence = double (7 / 10), occurrences = None \<rparr>
    (map_set ''help_request''
       \<lparr> patterns = [''help'', ''assist'', ''support'', ''how do i'', ''can you help''],
         response = ''help'', pattern_confidence = double (8 / 10), occurrences = None \<rparr>
    (map_set ''greeting''
       \<lparr> patterns = [''hello'', ''hi'', ''hey'', ''good morning'', ''good afternoon'', ''good evening''],
         response = ''greeting'', pattern_confidence = double (9 / 10), occurrences = None \<rparr>
     tbl))))"

definition response_time_condition :: "learn_context \<Rightarrow> error + bool" where
  "response_time_condition ctx =
     (case ctx_performance ctx of
        None \<Rightarrow> Inl (TypeError ''Cannot read properties of undefined (reading 'averageResponseTime')'')
      | Some p \<Rightarrow> Inr (averageResponseTime p > 5000))"

definition success_rate_condition :: "learn_context \<Rightarrow> error + bool" where
  "success_rate_condition ctx =
     (case ctx_performance ctx of
        None \<Rightarrow> Inl (TypeError ''Cannot read properties of undefined (reading 'successfulActions')'')
      | Some p \<Rightarrow>
          let successRate = js_div (of_nat (successfulActions p)) (of_nat (totalInteractions p))
          in Inr (js_less successRate (8 / 10)))"

definition memory_condition :: "learn_context \<Rightarrow> error + bool" where
  "memory_condition ctx =
     (case ctx_memory ctx of
        None \<Rightarrow> Inl (TypeError ''Cannot read properties of undefined (reading 'length')'')
      | Some m \<Rightarrow> Inr (length m > 1000))"

definition initializeAdaptationRules ::
  "(string \<times> adaptation_rule) list \<Rightarrow> (string \<times> adaptation_rule) list" where
  "initializeAdaptationRules rules =
     map_set ''memory_optimization''
       \<lparr> condition = Some memory_condition, rule_action = ''cleanup_memory'', priority = 3 \<rparr>
    (map_set ''success_rate_improvement''
       \<lparr> condition = Some success_rate_condition, rule_action = ''increase_safety_checks'',
         priority = 2 \<rparr>
    (map_set ''response_time_optimization''
       \<lparr> condition = Some response_time_condition, rule_action = ''reduce_complexity'',
         priority = 1 \<rparr>
     rules))"

definition new_learning_engine :: learning_engine where
  "new_learning_engine =
     \<lparr> patterns_table = initializePatterns [], performanceHistory = [],
       adaptationRules = initializeAdaptationRules [], console = [] \<rparr>"

fun bigrams :: "string list \<Rightarrow> string list" where
  "bigrams (a # b # rest) = (a @ '' '' @ b) # bigrams (b # rest)"
| "bigrams ws = []"

fun trigrams :: "string list \<Rightarrow> string list" where
  "trigrams (a # b # c # rest) = (a @ '' '' @ b @ '' '' @ c) # trigrams (b # c # rest)"
| "trigrams ws = []"

definition keyPhrases :: "string list" where
  "keyPhrases =
     [''help me'', ''how to'', ''what is'', ''can you'', ''please'',
      ''thank you'', ''i want'', ''i need'', ''show me'', ''tell me'']"

definition extractPatterns :: "string \<Rightarrow> string list" where
  "extractPatterns text =
     (let ws = split_ws (toLowerCase text)
      in bigrams ws @ trigrams ws
         @ filter (\<lambda>phrase. str_includes (toLowerCase text) phrase) keyPhrases)"

text \<open>One round of the \<open>forEach\<close> in \<open>updatePatternRecognition\<close>.\<close>

definition update_pattern ::
  "agent_decision \<Rightarrow> string \<Rightarrow> (string \<times> pattern_data) list \<Rightarrow> (string \<times> pattern_data) list" where
  "update_pattern decision pat tbl =
     (case map_of tbl pat of
        None \<Rightarrow>
          map_set pat \<lparr> patterns = [pat], response = decision_type_name (decision_type decision),
                        pattern_confidence = double (1 / 2), occurrences = Some 1 \<rparr> tbl
      | Some patternData \<Rightarrow>
          map_set pat (patternData\<lparr>
              occurrences := Some ((case occurrences patternData of None \<Rightarrow> 0 | Some n \<Rightarrow> n) + 1),
              pattern_confidence :=
                (if confidence decision > double (7 / 10)
                 then min 1 (double (pattern_confidence patternData + double (1 / 10)))
                 else max (double (1 / 10))
                        (double (pattern_confidence patternData - double (1 / 20)))) \<rparr>) tbl)"

definition updatePatternRecognition ::
  "string list \<Rightarrow> agent_decision \<Rightarrow> learning_engine \<Rightarrow> learning_engine" where
  "updatePatternRecognition pats decision le =
     le\<lparr> patterns_table := fold (update_pattern decision) pats (patterns_table le) \<rparr>"

definition analyzePerformance ::
  "agent_decision \<Rightarrow> learn_context \<Rightarrow> learning_engine \<Rightarrow> learning_engine" where
  "analyzePerformance decision ctx le =
     (let entry = \<lparr> entry_decisionType = decision_type decision,
                     entry_confidence = confidence decision,
                     entry_responseTime = (case ctx_responseTime ctx of None \<Rightarrow> 0 | Some t \<Rightarrow> t),
                     success = (confidence decision > double (1 / 2)) \<rparr>;
          history = performanceHistory le @ [entry]
      in le\<lparr> performanceHistory :=
              (if length history > 1000 then slice (- 1000) history else history) \<rparr>)"

text \<open>The call \<open>rule.condition(context)\<close> inside the \<open>filter\<close>.\<close>

definition call_condition :: "adaptation_rule \<Rightarrow> learn_context \<Rightarrow> error + bool" where
  "call_condition rule ctx =
     (case condition rule of
        None \<Rightarrow> Inl (TypeError ''rule.condition is not a function'')
      | Some c \<Rightarrow> c ctx)"

text \<open>\<open>Array.prototype.filter\<close> with a callback that may throw: the first exception ends
  the traversal and is the result.\<close>

fun applicable_rules :: "adaptation_rule list \<Rightarrow> learn_context \<Rightarrow> error + adaptation_rule list" where
  "applicable_rules [] ctx = Inr []"
| "applicable_rules (rule # rest) ctx =
     (case call_condition rule ctx of
        Inl err \<Rightarrow> Inl err
      | Inr holds \<Rightarrow>
          (case applicable_rules rest ctx of
             Inl err \<Rightarrow> Inl err
           | Inr kept \<Rightarrow> Inr (if holds then rule # kept else kept)))"

definition executeAdaptationRule :: "adaptation_rule \<Rightarrow> log_line" where
  "executeAdaptationRule rule =
     (if rule_action rule = ''reduce_complexity'' then Log ''Adapting: Reducing response complexity''
      else if rule_action rule = ''increase_safety_checks'' then Log ''Adapting: Increasing safety checks''
      else if rule_action rule = ''cleanup_memory'' then Log ''Adapting: Cleaning up memory''
      else Log (''Unknown adaptation action: '' @ rule_action rule))"

text \<open>\<open>adaptBehavior\<close>: filter, then the stable sort by priority, then one
  \<open>executeAdaptationRule\<close> per rule, whose only effect is its line on the console.\<close>

definition adaptBehavior :: "learn_context \<Rightarrow> learning_engine \<Rightarrow> (error + unit) \<times> learning_engine" where
  "adaptBehavior ctx le =
     (case applicable_rules (map snd (adaptationRules le)) ctx of
        Inl err \<Rightarrow> (Inl err, le)
      | Inr applicable \<Rightarrow>
          (Inr (), le\<lparr> console := console le
                          @ map executeAdaptationRule (sort_key priority applicable) \<rparr>))"

definition storeLearningInsights ::
  "agent_message \<Rightarrow> agent_message \<Rightarrow> agent_decision \<Rightarrow> string list \<Rightarrow> learning_engine
     \<Rightarrow> learning_engine" where
  "storeLearningInsights msg resp decision pats le =
     le\<lparr> console := console le
           @ [LogInsight (content msg) (content resp) decision pats
                (confidence decision > double (1 / 2))] \<rparr>"

text \<open>\<open>LearningEngine.learnFromInteraction\<close>. An exception of \<open>adaptBehavior\<close> rejects
  the call after the pattern table and the history were updated.\<close>

definition learnFromInteraction_learning ::
  "agent_message \<Rightarrow> agent_message \<Rightarrow> agent_decision \<Rightarrow> learn_context \<Rightarrow> learning_engine
     \<Rightarrow> (error + unit) \<times> learning_engine" where
  "learnFromInteraction_learning msg resp decision ctx le =
     (let pats = extractPatterns (content msg);
          le1 = updatePatternRecognition pats decision le;
          le2 = analyzePerformance decision ctx le1
      in (case adaptBehavior ctx le2 of
            (Inl err, le3) \<Rightarrow> (Inl err, le3)
          | (Inr u, le3) \<Rightarrow> (Inr (), storeLearningInsights msg resp decision pats le3)))"

record performance_metrics =
  metrics_totalInteractions :: nat
  averageConfidence :: jsnum
  successRate :: jsnum
  metrics_averageResponseTime :: jsnum

definition getPerformanceMetrics :: "learning_engine \<Rightarrow> performance_metrics" where
  "getPerformanceMetrics le =
     (let history = performanceHistory le
      in if length history = 0 then
           \<lparr> metrics_totalInteractions = 0, averageConfidence = Fin 0, successRate = Fin 0,
             metrics_averageResponseTime = Fin 0 \<rparr>
         else
           let total = length history
           in \<lparr> metrics_totalInteractions = total,
                averageConfidence =
                  js_div (foldl (\<lambda>sum p. sum + entry_confidence p) 0 history) (of_nat total),
                successRate = js_div (of_nat (length (filter success history))) (of_nat total),
                metrics_averageResponseTime =
                  js_div (foldl (\<lambda>sum p. sum + entry_responseTime p) 0 history) (of_nat total) \<rparr>)"

text \<open>
  \<open>importLearningData\<close>. The document is the value of \<open>JSON.parse\<close> read at the types the
  engine uses it at afterwards; \<open>None\<close> is a document that does not parse or is \<open>null\<close>
  (the error is logged and nothing changes). A property that is absent or \<open>null\<close> leaves
  its field as it is. A rule of a document has no \<open>condition\<close>: JSON has no functions.
\<close>

record learning_document =
  doc_patterns :: "(string \<times> pattern_data) list option"
  doc_performanceHistory :: "perf_entry list option"
  doc_adaptationRules :: "(string \<times> string \<times> rat) list option"

definition new_Map :: "('k \<times> 'v) list \<Rightarrow> ('k \<times> 'v) list" where
  "new_Map entries = fold (\<lambda>(k, v) m. map_set k v m) entries []"

definition importLearningData :: "learning_document option \<Rightarrow> learning_engine \<Rightarrow> learning_engine" where
  "importLearningData parsed le =
     (case parsed of
        None \<Rightarrow> le\<lparr> console := console le @ [LogImportFailed] \<rparr>
      | Some imported \<Rightarrow>
          let le1 = (case doc_patterns imported of
                       None \<Rightarrow> le
                     | Some ps \<Rightarrow> le\<lparr> patterns_table := new_Map ps \<rparr>);
              le2 = (case doc_performanceHistory imported of
                       None \<Rightarrow> le1
                     | Some h \<Rightarrow> le1\<lparr> performanceHistory := h \<rparr>)
          in (case doc_adaptationRules imported of
                None \<Rightarrow> le2
              | Some rs \<Rightarrow>
                  le2\<lparr> adaptationRules :=
                         new_Map (map (\<lambda>(k, a, p). (k, \<lparr> condition = None, rule_action = a,
                                                             priority = p \<rparr>)) rs) \<rparr>))"

definition reset :: "learning_engine \<Rightarrow> learning_engine" where
  "reset le =
     le\<lparr> patterns_table := initializePatterns [], performanceHistory := [],
         adaptationRules := initializeAdaptationRules [] \<rparr>"

section \<open>The states of the pattern table\<close>

text \<open>The invariant of the pattern table, and the engines that the constructor, the
  learning step and \<open>reset\<close> produce.\<close>

definition confidence_in_range :: "(string \<times> pattern_data) list \<Rightarrow> bool" where
  "confidence_in_range tbl =
     list_all (\<lambda>(k, pd). 1 / 10 \<le> pattern_confidence pd \<and> pattern_confidence pd \<le> 1) tbl"

inductive reachable :: "learning_engine \<Rightarrow> bool" where
  constructed: "reachable new_learning_engine"
| learned: "reachable le \<Longrightarrow>
     reachable (snd (learnFromInteraction_learning msg resp decision ctx le))"
| was_reset: "reachable le \<Longrightarrow> reachable (reset le)"


section \<open>Sample inputs\<close>

text \<open>A tool as the repository registers them, with the safety check left open, in an
  engine whose world counts the executions of the tool.\<close>

definition guarded_tool :: "(json option \<Rightarrow> error + bool) \<Rightarrow> nat agent_tool" where
  "guarded_tool check =
     \<lparr> tool_id = ''file_read'', tool_name = ''Read File'',
       description = ''Read the contents of a file'', category = File,
       parameters = JObj [], execute = (\<lambda>params w. (Inr (JBool True), Suc w)),
       safetyCheck = Some check \<rparr>"

definition sample_config :: "nat agent_tool list \<Rightarrow> nat agent_config" where
  "sample_config ts =
     \<lparr> config_name = ''agent'', config_description = [], capabilities = [],
       safetyLevel = Medium, learningEnabled = True, maxMemorySize = 1000,
       config_tools = ts \<rparr>"

definition sample_engine :: "(json option \<Rightarrow> error + bool) \<Rightarrow> nat engine" where
  "sample_engine check = new_engine (sample_config [guarded_tool check]) 0"

definition chat_intent :: json where
  "chat_intent =
     JObj [(''intent'', JStr ''chat''), (''entities'', JObj []), (''urgency'', JStr ''low''),
           (''complexity'', JStr ''simple'')]"

text \<open>A safety check that reads a property of its parameters, as the checks of the
  repository's tools do; it throws when the parameters are \<open>undefined\<close>.\<close>

definition filepath_check :: "json option \<Rightarrow> error + bool" where
  "filepath_check params =
     (case get_prop params ''filepath'' of
        Inl err \<Rightarrow> Inl err
      | Inr (Some (JStr path)) \<Rightarrow> Inr (path \<noteq> [])
      | Inr other \<Rightarrow> Inr False)"

definition file_intent :: "json option \<Rightarrow> json" where
  "file_intent entities =
     JObj ([(''intent'', JStr ''file_operation'')]
           @ (case entities of None \<Rightarrow> [] | Some v \<Rightarrow> [(''entities'', v)])
           @ [(''urgency'', JStr ''low''), (''complexity'', JStr ''simple'')])"

text \<open>Classifiers that answer with a file intent, with and without entities; a text
  generator that is offline; a \<open>stringify\<close> for the results of the sample tool.\<close>

definition path_classifier :: classifier where
  "path_classifier msg ctx = Inr (file_intent (Some (JObj [(''filepath'', JStr ''/tmp/a'')])))"

definition bare_classifier :: classifier where
  "bare_classifier msg ctx = Inr (file_intent None)"

definition no_generator :: generator where
  "no_generator msg ctx = Inl (Error ''offline'')"

definition plain_stringify :: "json \<Rightarrow> string" where
  "plain_stringify v = (case v of JBool True \<Rightarrow> ''true'' | JBool False \<Rightarrow> ''false'' | other \<Rightarrow> ''null'')"

definition request_without_entities :: "(error + string) \<times> nat engine" where
  "request_without_entities =
     processMessage (\<lambda>msg ctx. Inr (file_intent None)) no_generator plain_stringify 5
       ''read it'' (sample_engine filepath_check)"

text \<open>Inputs of the learning engine.\<close>

definition decision_with :: "rat \<Rightarrow> agent_decision" where
  "decision_with c =
     \<lparr> decision_id = 1, decision_type = response_generation, confidence = c,
       reasoning = ''Default response generation'', action = ReplyAction (Some []) \<rparr>"

definition text_message :: "role \<Rightarrow> string \<Rightarrow> agent_message" where
  "text_message r t = \<lparr> message_id = 0, role = r, content = t, metadata = None \<rparr>"

definition steady_context :: learn_context where
  "steady_context =
     \<lparr> ctx_performance = Some \<lparr> totalInteractions = 1, successfulActions = 1,
                                 averageResponseTime = 10, learningProgress = 0 \<rparr>,
       ctx_memory = Some [], ctx_responseTime = None \<rparr>"

definition after_first :: learning_engine where
  "after_first = snd (learnFromInteraction_learning (text_message User ''help me'')
      (text_message Assistant ''ok'') (decision_with (double (9 / 10))) steady_context
      new_learning_engine)"

definition after_second :: learning_engine where
  "after_second = snd (learnFromInteraction_learning (text_message User ''help me'')
      (text_message Assistant ''ok'') (decision_with (double (3 / 10))) steady_context after_first)"

definition overconfident_document :: learning_document where
  "overconfident_document =
     \<lparr> doc_patterns = Some [(''always'', \<lparr> patterns = [''always''], response = ''help'',
                                          pattern_confidence = 5, occurrences = Some 1 \<rparr>)],
       doc_performanceHistory = None, doc_adaptationRules = None \<rparr>"

definition stored_record :: agent_memory where
  "stored_record = \<lparr> memory_id = 0, memory_type = learning_note,
      memory_content = LearningNote ''note'', relevance = None \<rparr>"

definition broken_context :: learn_context where
  "broken_context =
     \<lparr> ctx_performance = None, ctx_memory = Some (replicate 1001 stored_record),
       ctx_responseTime = None \<rparr>"

definition slow_context :: learn_context where
  "slow_context =
     \<lparr> ctx_performance = Some \<lparr> totalInteractions = 4, successfulActions = 1,
                                 averageResponseTime = 6000, learningProgress = 0 \<rparr>,
       ctx_memory = Some [], ctx_responseTime = None \<rparr>"


section \<open>Properties of doubles\<close>

lemma round_even_ge: "of_int n \<le> z \<Longrightarrow> n \<le> round_even z"
proof -
  assume "of_int n \<le> z"
  then have "n \<le> \<lfloor>z\<rfloor>" by (simp add: le_floor_iff)
  then show ?thesis by (simp add: round_even_def Let_def)
qed

lemma round_even_le: "z \<le> of_int m \<Longrightarrow> round_even z \<le> m"
proof -
  assume zm: "z \<le> of_int m"
  have "\<lfloor>z\<rfloor> \<le> \<lfloor>(of_int m :: rat)\<rfloor>" using zm by (rule floor_mono)
  then have f: "\<lfloor>z\<rfloor> \<le> m" by simp
  show ?thesis
  proof (cases "z = of_int \<lfloor>z\<rfloor>")
    case True
    then have "z - of_int \<lfloor>z\<rfloor> = 0" by simp
    then show ?thesis using f by (simp add: round_even_def Let_def)
  next
    case False
    then have "of_int \<lfloor>z\<rfloor> < z" using of_int_floor_le[of z] by linarith
    then have "of_int \<lfloor>z\<rfloor> < (of_int m :: rat)" using zm by linarith
    then have "\<lfloor>z\<rfloor> < m" by simp
    then show ?thesis by (simp add: round_even_def Let_def)
  qed
qed

lemma binade_bounds:
  assumes "0 < x"
  shows "2 powi (binade x) \<le> x \<and> x < 2 powi (binade x + 1)"
proof -
  obtain p q where pq: "quotient_of x = (p, q)" by (cases "quotient_of x")
  have q: "0 < q" using quotient_of_denom_pos[OF pq] .
  have x: "x = of_int p / of_int q" using quotient_of_div[OF pq] .
  have p: "0 < p" using assms q x by (simp add: zero_less_divide_iff)
  define bp where "bp = bitlen p"
  define bq where "bq = bitlen q"
  have bpb: "2 ^ nat (bp - 1) \<le> p" "p < 2 ^ nat bp" using bitlen_bounds[OF p] by (simp_all add: bp_def)
  have bqb: "2 ^ nat (bq - 1) \<le> q" "q < 2 ^ nat bq" using bitlen_bounds[OF q] by (simp_all add: bq_def)
  have bp1: "1 \<le> bp" using p by (simp add: bp_def bitlen_alt_def) 
  have bq1: "1 \<le> bq" using q by (simp add: bq_def bitlen_alt_def)
  have P1: "(2::rat) powi (bp - 1) \<le> of_int p"
    using bpb(1) bp1 by (metis of_int_le_iff of_int_numeral of_int_power power_int_def diff_ge_0_iff_ge)
  have P2: "of_int p < (2::rat) powi bp"
    using bpb(2) bp1 by (metis of_int_less_iff of_int_numeral of_int_power power_int_def order_trans zero_le_one)
  have Q1: "(2::rat) powi (bq - 1) \<le> of_int q"
    using bqb(1) bq1 by (metis of_int_le_iff of_int_numeral of_int_power power_int_def diff_ge_0_iff_ge)
  have Q2: "of_int q < (2::rat) powi bq"
    using bqb(2) bq1 by (metis of_int_less_iff of_int_numeral of_int_power power_int_def order_trans zero_le_one)
  have qpos: "(0::rat) < of_int q" using q by simp
  have lo: "(2::rat) powi (bp - bq - 1) < x"
  proof -
    have "(2::rat) powi (bp - bq - 1) = 2 powi (bp - 1) / 2 powi bq"
      by (simp add: power_int_diff)
    also have "\<dots> \<le> of_int p / 2 powi bq" using P1 by (simp add: divide_right_mono)
    also have "\<dots> < of_int p / of_int q" using Q2 qpos p by (simp add: divide_strict_left_mono)
    finally show ?thesis by (simp add: x)
  qed
  have hi: "x < (2::rat) powi (bp - bq + 1)"
  proof -
    have "x = of_int p / of_int q" by (rule x)
    also have "\<dots> < 2 powi bp / of_int q" using P2 qpos by (simp add: divide_strict_right_mono)
    also have "\<dots> \<le> 2 powi bp / 2 powi (bq - 1)"
      by (rule divide_left_mono[OF Q1]) (simp_all add: q zero_less_mult_iff)
    also have "\<dots> = 2 powi (bp - (bq - 1))" by (rule power_int_diff[symmetric]) simp
    also have "bp - (bq - 1) = bp - bq + 1" by simp
    finally show ?thesis .
  qed
  have b: "binade x = (if 2 powi (bp - bq) \<le> x then bp - bq else bp - bq - 1)"
    using assms by (simp add: binade_def pq bp_def bq_def Let_def)
  show ?thesis
  proof (cases "2 powi (bp - bq) \<le> x")
    case True
    then show ?thesis using hi by (simp add: b)
  next
    case False
    then show ?thesis using lo by (simp add: b)
  qed
qed


lemma powi_split: "(2::rat) powi (e - 52 + int k) = 2 ^ k * 2 powi (e - 52)"
proof -
  have "(2::rat) powi (int k + (e - 52)) = 2 powi (int k) * 2 powi (e - 52)"
    by (rule power_int_add) simp
  then show ?thesis by (simp only: power_int_of_nat add.commute)
qed

lemma double_binade_bounds:
  assumes "0 < x" and "- 1022 \<le> binade x"
  shows "2 powi (binade x) \<le> double x \<and> double x \<le> 2 powi (binade x + 1)"
proof -
  define e where "e = binade x"
  define ulp :: rat where "ulp = 2 powi (e - 52)"
  have ulp: "0 < ulp" by (simp add: ulp_def)
  have m: "max (binade x) (- 1022) = e" using assms(2) by (simp add: e_def max_def)
  have x0: "x \<noteq> 0" using assms(1) by simp
  have d: "double x = of_int (round_even (x / ulp)) * ulp"
    unfolding double_def Let_def m ulp_def using x0 by (simp only: if_False)
  have b: "2 powi e \<le> x" "x < 2 powi (e + 1)"
    using binade_bounds[OF assms(1)] by (simp_all only: e_def)
  have "e = e - 52 + int 52" by simp
  then have "(2::rat) powi e = 2 powi (e - 52 + int 52)" by (rule arg_cong)
  then have lo: "(2::rat) powi e = 2 ^ 52 * ulp" by (simp only: powi_split ulp_def)
  have "e + 1 = e - 52 + int 53" by simp
  then have "(2::rat) powi (e + 1) = 2 powi (e - 52 + int 53)" by (rule arg_cong)
  then have hi: "(2::rat) powi (e + 1) = 2 ^ 53 * ulp" by (simp only: powi_split ulp_def)
  have "2 ^ 52 * ulp \<le> x" using b(1) by (simp only: lo)
  then have "2 ^ 52 \<le> x / ulp" using ulp by (simp only: pos_le_divide_eq)
  then have "of_int (2 ^ 52) \<le> x / ulp" by (simp only: of_int_power of_int_numeral)
  then have 1: "2 ^ 52 \<le> round_even (x / ulp)" by (rule round_even_ge)
  have "x \<le> 2 ^ 53 * ulp" using b(2) by (simp only: hi less_imp_le)
  then have "x / ulp \<le> 2 ^ 53" using ulp by (simp only: pos_divide_le_eq)
  then have "x / ulp \<le> of_int (2 ^ 53)" by (simp only: of_int_power of_int_numeral)
  then have 2: "round_even (x / ulp) \<le> 2 ^ 53" by (rule round_even_le)
  have "(of_int (2 ^ 52) :: rat) \<le> of_int (round_even (x / ulp))"
    using 1 by (simp only: of_int_le_iff)
  then have 3: "2 ^ 52 * ulp \<le> of_int (round_even (x / ulp)) * ulp"
    using ulp by (simp only: mult_le_cancel_right_pos of_int_power of_int_numeral)
  have "(of_int (round_even (x / ulp)) :: rat) \<le> of_int (2 ^ 53)"
    using 2 by (simp only: of_int_le_iff)
  then have 4: "of_int (round_even (x / ulp)) * ulp \<le> 2 ^ 53 * ulp"
    using ulp by (simp only: mult_le_cancel_right_pos of_int_power of_int_numeral)
  show ?thesis unfolding d lo hi e_def[symmetric] using 3 4 by (rule conjI)
qed

lemma powi_less_cancel: "(2::rat) powi m < 2 powi n \<Longrightarrow> m < n"
proof (rule ccontr)
  assume a: "(2::rat) powi m < 2 powi n" and "\<not> m < n"
  then have "n \<le> m" by simp
  then have "(2::rat) powi n \<le> 2 powi m" by (simp add: power_int_increasing)
  with a show False by simp
qed

lemma binade_ge: "0 < x \<Longrightarrow> 2 powi n \<le> x \<Longrightarrow> n \<le> binade x"
proof -
  assume "0 < x" "2 powi n \<le> x"
  then have "(2::rat) powi n < 2 powi (binade x + 1)" using binade_bounds[of x] by linarith
  then have "n < binade x + 1" by (rule powi_less_cancel)
  then show ?thesis by simp
qed

lemma binade_less: "0 < x \<Longrightarrow> x < 2 powi n \<Longrightarrow> binade x < n"
proof -
  assume "0 < x" "x < 2 powi n"
  then have "(2::rat) powi (binade x) < 2 powi n" using binade_bounds[of x] by linarith
  then show ?thesis by (rule powi_less_cancel)
qed

text \<open>Rounding keeps a value between two powers of two that enclose it.\<close>

lemma double_between:
  assumes "2 powi lo \<le> x" "x < 2 powi hi" "- 1022 \<le> lo"
  shows "2 powi lo \<le> double x \<and> double x \<le> 2 powi hi"
proof -
  have x: "0 < x" using assms(1) by (meson less_le_trans zero_less_numeral zero_less_power_int)
  have l: "lo \<le> binade x" using binade_ge[OF x assms(1)] .
  have h: "binade x + 1 \<le> hi" using binade_less[OF x assms(2)] by simp
  have n: "- 1022 \<le> binade x" using l assms(3) by simp
  have "(2::rat) powi lo \<le> 2 powi (binade x)" using l by (simp add: power_int_increasing)
  moreover have "(2::rat) powi (binade x + 1) \<le> 2 powi hi" using h by (simp add: power_int_increasing)
  ultimately show ?thesis using double_binade_bounds[OF x n] by linarith
qed

text \<open>The doubles of the literals and of the sums and differences of the scenarios.\<close>

lemma double_half: "double (1 / 2) = 1 / 2"
  by code_simp

lemma double_tenth: "double (1 / 10) = 3602879701896397 / 36028797018963968"
  by code_simp

lemma double_twentieth: "double (1 / 20) = 3602879701896397 / 72057594037927936"
  by code_simp

lemma double_seeds:
  "double (7 / 10) = 3152519739159347 / 4503599627370496"
  "double (8 / 10) = 3602879701896397 / 4503599627370496"
  "double (9 / 10) = 8106479329266893 / 9007199254740992"
  "double (4 / 5) = 3602879701896397 / 4503599627370496"
  by code_simp+

lemma double_scenario:
  "min 1 (double (double (1 / 2) + double (1 / 10))) = double (6 / 10)"
  "max (double (1 / 10)) (double (double (6 / 10) - double (1 / 20)))
     = double (5499999999999999 / 10000000000000000)"
  "max (double (1 / 10))
     (double (double (5499999999999999 / 10000000000000000) - double (1 / 20)))
     = double (49999999999999994 / 100000000000000000)"
  "max (double (1 / 10)) (double (double (1 / 2) - double (1 / 20))) = double (45 / 100)"
  by code_simp+

lemma double_scenario_values:
  "double (6 / 10) = 5404319552844595 / 9007199254740992"
  "double (49999999999999994 / 100000000000000000) = 9007199254740991 / 18014398509481984"
  "double (55 / 100) = 2476979795053773 / 4503599627370496"
  by code_simp+

section \<open>Properties of the memory store\<close>

lemma slice_neg: "0 < C \<Longrightarrow> slice (- int C) xs = drop (length xs - C) xs"
  by (simp add: slice_def Let_def max_def nat_diff_distrib')

lemma storeMemory_config: "config (state (storeMemory m e)) = config (state e)"
  by (simp add: storeMemory_def Let_def)

lemma storeMemory_zero:
  "maxMemorySize (config (state e)) = 0 \<Longrightarrow>
   memory (state (storeMemory m e)) = memory (state e) @ [m]"
  by (simp add: storeMemory_def Let_def slice_def)

lemma fold_storeMemory_zero:
  "maxMemorySize (config (state e)) = 0 \<Longrightarrow>
   memory (state (fold storeMemory ms e)) = memory (state e) @ ms"
  by (induction ms arbitrary: e) (simp_all add: storeMemory_zero storeMemory_config)

lemma storeMemory_pos:
  assumes "maxMemorySize (config (state e)) = int C" "1 \<le> C"
  shows "memory (state (storeMemory m e)) =
         drop (length (memory (state e)) + 1 - C) (memory (state e) @ [m])"
  using assms by (simp add: storeMemory_def Let_def slice_neg)

lemma drop_drop_append: "a \<le> length ys \<Longrightarrow> drop j (drop a ys @ ms) = drop (a + j) (ys @ ms)"
  by (simp add: add.commute)

text \<open>With a capacity of at least one the store is the FIFO buffer of the specification:
  after any sequence of insertions it holds the last \<open>C\<close> records inserted, in order.\<close>

lemma fold_storeMemory_pos:
  assumes "maxMemorySize (config (state e)) = int C" "1 \<le> C"
    and "length (memory (state e)) \<le> C"
  shows "memory (state (fold storeMemory ms e)) =
         drop (length (memory (state e)) + length ms - C) (memory (state e) @ ms)"
  using assms
proof (induction ms arbitrary: e)
  case Nil
  then show ?case by simp
next
  case (Cons m ms)
  let ?xs = "memory (state e)"
  let ?a = "length ?xs + 1 - C"
  have c: "maxMemorySize (config (state (storeMemory m e))) = int C"
    using Cons.prems by (simp add: storeMemory_config)
  have mem: "memory (state (storeMemory m e)) = drop ?a (?xs @ [m])"
    using storeMemory_pos[OF Cons.prems(1,2)] .
  have len: "length (memory (state (storeMemory m e))) \<le> C"
    using Cons.prems by (simp add: mem)
  have a: "?a \<le> length (?xs @ [m])" by simp
  have "memory (state (fold storeMemory (m # ms) e)) =
        drop (length (drop ?a (?xs @ [m])) + length ms - C) (drop ?a (?xs @ [m]) @ ms)"
    using Cons.IH[OF c Cons.prems(2) len] by (simp only: fold_simps mem)
  also have "\<dots> = drop (?a + (length (drop ?a (?xs @ [m])) + length ms - C)) ((?xs @ [m]) @ ms)"
    by (rule drop_drop_append[OF a])
  also have "?a + (length (drop ?a (?xs @ [m])) + length ms - C) = length ?xs + length (m # ms) - C"
    using Cons.prems(2,3) by simp
  finally show ?case by simp
qed

lemma fold_storeMemory_new_engine:
  "1 \<le> C \<Longrightarrow> maxMemorySize cfg = int C \<Longrightarrow>
   memory (state (fold storeMemory ms (new_engine cfg w))) = drop (length ms - C) ms
   \<and> length (memory (state (fold storeMemory ms (new_engine cfg w)))) \<le> C"
proof -
  assume C: "1 \<le> C" and cfg: "maxMemorySize cfg = int C"
  have "memory (state (fold storeMemory ms (new_engine cfg w))) =
        drop (length (memory (state (new_engine cfg w))) + length ms - C)
             (memory (state (new_engine cfg w)) @ ms)"
    by (rule fold_storeMemory_pos[OF _ C]) (simp_all add: new_engine_def cfg)
  then have "memory (state (fold storeMemory ms (new_engine cfg w))) = drop (length ms - C) ms"
    by (simp add: new_engine_def)
  then show ?thesis by simp
qed

text \<open>The scenario of the specification: capacity 3 and the records A, B, C, D.\<close>

lemma storeMemory_scenario:
  "maxMemorySize cfg = 3 \<Longrightarrow>
   memory (state (fold storeMemory [A, B, C, D] (new_engine cfg w))) = [B, C, D]"
  using fold_storeMemory_new_engine [of 3 cfg "[A, B, C, D]" w] by simp

text \<open>
  C1 (bounded memory, FIFO eviction). The specification says that for every capacity \<open>C\<close> the store
  holds at most \<open>C\<close> records after each insertion, namely the \<open>C\<close> most recent ones.
  \<open>storeMemory\<close> truncates with \<open>slice(-maxMemorySize)\<close>, and for \<open>maxMemorySize = 0\<close>
  that is \<open>slice(0)\<close>, the whole array: an engine configured with capacity 0 keeps every
  record of every sequence of insertions.
\<close>

theorem storeMemory_capacity_zero_keeps_everything:
  "memory (state (fold storeMemory ms (new_engine (cfg\<lparr> maxMemorySize := 0 \<rparr>) w))) = ms"
proof -
  have "memory (state (fold storeMemory ms (new_engine (cfg\<lparr> maxMemorySize := 0 \<rparr>) w))) =
        memory (state (new_engine (cfg\<lparr> maxMemorySize := 0 \<rparr>) w)) @ ms"
    by (rule fold_storeMemory_zero) (simp add: new_engine_def)
  then show ?thesis by (simp add: new_engine_def)
qed

section \<open>Properties of the decision engine\<close>

lemma category_name_not_response: "category_name c \<noteq> ''response''"
  by (cases c) simp_all

lemma category_name_not_chat: "category_name c \<noteq> ''chat''"
  by (cases c) simp_all

lemma getContext_no_messages: "map_of (getContext e) ''messages'' = None"
  by (simp add: getContext_def)

lemma relevant_tools_string:
  "relevant_tools (Some (JStr s)) ts =
     Inr (filter (\<lambda>tool. category_name (category tool)
            = replace ''_generation'' [] (replace ''_search'' [] (replace ''_operation'' [] s))) ts)"
  by (induction ts) simp_all

lemma determineBestAction_fallback:
  "determineBestAction fallback_intent (getContext e) e =
     Inl (TypeError ''Cannot read properties of undefined (reading 'length')'')"
  by (simp add: determineBestAction_def fallback_intent_def getContext_no_messages
      relevant_tools_string category_name_not_response Let_def)

text \<open>
  C2 (a failing classifier still yields a reply decision). The specification says that
  \<open>makeDecision\<close> returns a \<open>response_generation\<close> decision of confidence 0.6 and never
  raises when the classifier fails. With the fallback intent no tool matches and the
  complexity is simple, so \<open>determineBestAction\<close> reaches its last branch, which reads
  \<open>context.messages.length\<close>; the context of \<open>getContext\<close> has \<open>recentMessages\<close> and no
  \<open>messages\<close>. For every engine and every message the call raises a \<open>TypeError\<close>, and
  \<open>processMessage\<close>, which awaits the decision outside its \<open>try\<close>, rejects with it.
\<close>

theorem makeDecision_raises_when_classifier_fails:
  "makeDecision (\<lambda>m c. Inl err) msg e =
     (Inl (TypeError ''Cannot read properties of undefined (reading 'length')''), e)
   \<and> fst (processMessage (\<lambda>m c. Inl err) generate stringify elapsed msg e) =
       Inl (TypeError ''Cannot read properties of undefined (reading 'length')'')"
  by (simp add: processMessage_def makeDecision_def analyzeIntent_def
      determineBestAction_fallback Let_def split: prod.splits)

text \<open>The first two rows of the decision table are as the specification has them.\<close>

lemma determineBestAction_invoke:
  assumes "get_prop (Some intent) ''intent'' = Inr (Some (JStr primaryIntent))"
    and "relevantTools = filter (\<lambda>tool. category_name (category tool)
            = replace ''_generation'' [] (replace ''_search'' [] (replace ''_operation'' [] primaryIntent)))
             (map snd (tools e))"
    and "relevantTools \<noteq> []" and "safetyLevel (config (state e)) \<noteq> High"
  shows "\<exists>r entities. determineBestAction intent ctx e =
           Inr \<lparr> chosen_type = tool_execution, chosen_confidence = double (8 / 10),
                 chosen_reasoning = r,
                 chosen_action = ToolAction (tool_id (hd relevantTools)) entities \<rparr>"
  using assms by (simp add: determineBestAction_def relevant_tools_string Let_def)

lemma determineBestAction_plan:
  assumes "get_prop (Some intent) ''intent'' = Inr (Some (JStr primaryIntent))"
    and "get_prop (Some intent) ''complexity'' = Inr (Some (JStr ''complex''))"
    and "filter (\<lambda>tool. category_name (category tool)
            = replace ''_generation'' [] (replace ''_search'' [] (replace ''_operation'' [] primaryIntent)))
             (map snd (tools e)) = [] \<or> safetyLevel (config (state e)) = High"
    and "learningEnabled (config (state e))"
  shows "\<exists>entities. determineBestAction intent ctx e =
           Inr \<lparr> chosen_type = planning, chosen_confidence = double (7 / 10),
                 chosen_reasoning = ''Complex request requires planning'',
                 chosen_action = PlanAction intent entities \<rparr>"
  using assms by (auto simp add: determineBestAction_def relevant_tools_string Let_def)

text \<open>The third row returns the reply decision on a context that has \<open>messages\<close>; on the
  context of \<open>getContext\<close> it raises, whatever the intent.\<close>

lemma determineBestAction_reply:
  assumes "map_of kvs ''intent'' = Some (JStr primaryIntent)"
    and "filter (\<lambda>tool. category_name (category tool)
            = replace ''_generation'' [] (replace ''_search'' [] (replace ''_operation'' [] primaryIntent)))
             (map snd (tools e)) = [] \<or> safetyLevel (config (state e)) = High"
    and "map_of kvs ''complexity'' \<noteq> Some (JStr ''complex'')
         \<or> \<not> learningEnabled (config (state e))"
  shows "determineBestAction (JObj kvs) ctx e =
           (case map_of ctx ''messages'' of
              None \<Rightarrow> Inl (TypeError ''Cannot read properties of undefined (reading 'length')'')
            | Some v \<Rightarrow>
                Inr \<lparr> chosen_type = response_generation, chosen_confidence = double (6 / 10),
                      chosen_reasoning = ''Default response generation'',
                      chosen_action = ReplyAction (latest_content v) \<rparr>)"
proof -
  let ?wanted = "replace ''_generation'' [] (replace ''_search'' [] (replace ''_operation'' [] primaryIntent))"
  have row1: "\<not> (filter (\<lambda>tool. category_name (category tool) = ?wanted) (map snd (tools e)) \<noteq> []
                \<and> safetyLevel (config (state e)) \<noteq> High)"
    using assms(2) by blast
  have row2: "\<not> (map_of kvs ''complexity'' = Some (JStr ''complex'')
                \<and> learningEnabled (config (state e)))"
    using assms(3) by blast
  show ?thesis
    unfolding determineBestAction_def Let_def
    by (simp only: get_prop.simps assms(1) sum.case relevant_tools_string row1 row2 if_False)
qed

text \<open>With an empty registry the intent need not be a string: the plan row and the reply
  row are reached.\<close>

lemma determineBestAction_without_tools:
  assumes "tools e = []" and "learningEnabled (config (state e))"
  shows "determineBestAction (JObj [(''complexity'', JStr ''complex'')]) ctx e =
           Inr \<lparr> chosen_type = planning, chosen_confidence = double (7 / 10),
                 chosen_reasoning = ''Complex request requires planning'',
                 chosen_action = PlanAction (JObj [(''complexity'', JStr ''complex'')]) None \<rparr>"
  using assms by (simp add: determineBestAction_def Let_def)

text \<open>
  C5 (the three-branch decision table). The specification says that when neither the invoke row nor
  the plan row applies, the result is a reply of confidence 0.6 on the latest message.
  For the intent \<open>chat\<close> of simple complexity, in every engine, with the context that
  \<open>makeDecision\<close> passes, the third row raises a \<open>TypeError\<close> instead of returning.
\<close>

theorem determineBestAction_reply_branch_raises:
  "determineBestAction chat_intent (getContext e) e =
     Inl (TypeError ''Cannot read properties of undefined (reading 'length')'')"
  by (simp add: determineBestAction_def chat_intent_def getContext_no_messages
      relevant_tools_string category_name_not_chat Let_def)

section \<open>Properties of the dispatcher\<close>

text \<open>
  C6 (a failed safety check short-circuits). When the decision is a tool execution
  against a registered tool whose \<open>safetyCheck\<close> returns false on the parameters, the
  dispatch returns the text \<open>Safety check failed for tool: <name>\<close> and the engine is
  unchanged: the memory has no new record and the world is the one before the call,
  whatever the tool's \<open>execute\<close> would have done to it.
\<close>

theorem execute_decision_safety_check_false:
  assumes "decision_type decision = tool_execution"
    and "action decision = ToolAction toolId params"
    and "map_of (tools e) toolId = Some tool"
    and "safetyCheck tool = Some check"
    and "check params = Inr False"
  shows "execute_decision generate stringify msg decision e =
           (Inr (''Safety check failed for tool: '' @ tool_name tool), e)"
  using assms by (simp add: execute_decision_def executeTool_def)

lemma sample_tools: "tools (sample_engine check) = [(''file_read'', guarded_tool check)]"
  by (simp add: sample_engine_def new_engine_def sample_config_def guarded_tool_def)

theorem execute_decision_safety_check_false_witness:
  "fst (execute_decision no_generator plain_stringify ''read it''
          \<lparr> decision_id = 7, decision_type = tool_execution, confidence = 8 / 10,
            reasoning = [], action = ToolAction ''file_read'' None \<rparr>
          (sample_engine (\<lambda>p. Inr False)))
     = Inr ''Safety check failed for tool: Read File''
   \<and> world (snd (execute_decision no_generator plain_stringify ''read it''
          \<lparr> decision_id = 7, decision_type = tool_execution, confidence = 8 / 10,
            reasoning = [], action = ToolAction ''file_read'' None \<rparr>
          (sample_engine (\<lambda>p. Inr False)))) = 0
   \<and> memory (state (snd (execute_decision no_generator plain_stringify ''read it''
          \<lparr> decision_id = 7, decision_type = tool_execution, confidence = 8 / 10,
            reasoning = [], action = ToolAction ''file_read'' None \<rparr>
          (sample_engine (\<lambda>p. Inr False))))) = []"
proof -
  have t: "map_of (tools (sample_engine (\<lambda>p. Inr False))) ''file_read''
             = Some (guarded_tool (\<lambda>p. Inr False))"
    by (simp add: sample_tools)
  have "execute_decision no_generator plain_stringify ''read it''
     \<lparr> decision_id = 7, decision_type = tool_execution, confidence = 8 / 10,
       reasoning = [], action = ToolAction ''file_read'' None \<rparr>
     (sample_engine (\<lambda>p. Inr False))
   = (Inr (''Safety check failed for tool: '' @ tool_name (guarded_tool (\<lambda>p. Inr False))),
      sample_engine (\<lambda>p. Inr False))"
    by (rule execute_decision_safety_check_false[OF _ _ t]) (simp_all add: guarded_tool_def)
  then show ?thesis
    by (simp add: guarded_tool_def sample_engine_def new_engine_def)
qed

text \<open>The same tool with a check that passes is executed: the world has counted one
  execution and the memory holds the record of the result.\<close>

lemma execute_decision_safety_check_true:
  "world (snd (execute_decision no_generator plain_stringify ''read it''
          \<lparr> decision_id = 7, decision_type = tool_execution, confidence = 8 / 10,
            reasoning = [], action = ToolAction ''file_read'' None \<rparr>
          (sample_engine (\<lambda>p. Inr True)))) = 1
   \<and> map memory_type (memory (state (snd (execute_decision no_generator plain_stringify
          ''read it''
          \<lparr> decision_id = 7, decision_type = tool_execution, confidence = 8 / 10,
            reasoning = [], action = ToolAction ''file_read'' None \<rparr>
          (sample_engine (\<lambda>p. Inr True)))))) = [tool_result]"
  by (simp add: execute_decision_def executeTool_def sample_tools guarded_tool_def
      uuidv4_def storeMemory_def slice_def Let_def sample_engine_def new_engine_def
      sample_config_def)

section \<open>Properties of the request cycle\<close>

lemma storeMemory_frame:
  "messages (state (storeMemory m e)) = messages (state e)"
  "decisions (state (storeMemory m e)) = decisions (state e)"
  "config (state (storeMemory m e)) = config (state e)"
  by (simp_all add: storeMemory_def Let_def)

lemma storeMemory_memory:
  "memory (state (storeMemory m e)) =
     (if int (length (memory (state e) @ [m])) > maxMemorySize (config (state e))
      then slice (- maxMemorySize (config (state e))) (memory (state e) @ [m])
      else memory (state e) @ [m])"
  by (simp add: storeMemory_def Let_def)

lemma updatePerformance_frame:
  "messages (state (updatePerformance rt ok e)) = messages (state e)"
  "decisions (state (updatePerformance rt ok e)) = decisions (state e)"
  "memory (state (updatePerformance rt ok e)) = memory (state e)"
  "config (state (updatePerformance rt ok e)) = config (state e)"
  "uuid_supply (updatePerformance rt ok e) = uuid_supply e"
  by (simp_all add: updatePerformance_def Let_def)

lemma receive_message_eq:
  "receive_message msg e =
     (\<lparr> message_id = uuid_supply e, role = User, content = msg, metadata = None \<rparr>,
      e\<lparr> uuid_supply := Suc (uuid_supply e),
          state := (state e)\<lparr> messages := messages (state e)
             @ [\<lparr> message_id = uuid_supply e, role = User, content = msg, metadata = None \<rparr>] \<rparr> \<rparr>)"
  by (simp add: receive_message_def uuidv4_def Let_def)

lemma makeDecision_state:
  "makeDecision classify msg e = (r, e') \<Longrightarrow> state e' = state e"
  by (auto simp: makeDecision_def Let_def uuidv4_def split: sum.splits)

text \<open>What the dispatch of a decision does to the logs: the messages and the decisions
  stay, and the memory either stays or has received one record, of a tool result or of
  a learning note, through \<open>storeMemory\<close>. A dispatch that raises has changed nothing.\<close>

lemma executeTool_frame:
  assumes "executeTool stringify act e = (outcome, e')"
  shows "messages (state e') = messages (state e) \<and> decisions (state e') = decisions (state e)
         \<and> config (state e') = config (state e) \<and> (isl outcome \<longrightarrow> e' = e)
         \<and> (memory (state e') = memory (state e)
              \<or> (\<exists>r. memory_type r = tool_result
                     \<and> memory (state e') = memory (state (storeMemory r e))))"
proof (cases act)
  case (ToolAction toolId params)
  show ?thesis
  proof (cases "map_of (tools e) toolId")
    case None
    then show ?thesis using assms ToolAction by (auto simp: executeTool_def)
  next
    case (Some tool)
    show ?thesis
    proof (cases "case safetyCheck tool of None \<Rightarrow> Inr True | Some check \<Rightarrow> check params")
      case (Inl err)
      then show ?thesis using assms ToolAction Some by (auto simp: executeTool_def)
    next
      case (Inr ok)
      show ?thesis
      proof (cases ok)
        case False
        then show ?thesis using assms ToolAction Some Inr by (auto simp: executeTool_def)
      next
        case True
        obtain res w' where x: "execute tool params (world e) = (res, w')"
          by (cases "execute tool params (world e)")
        show ?thesis
        proof (cases res)
          case (Inl err)
          then show ?thesis using assms ToolAction Some Inr True x
            by (auto simp: executeTool_def)
        next
          case (Inr result)
          let ?r = "\<lparr> memory_id = uuid_supply e, memory_type = tool_result,
                      memory_content = ToolResult toolId params result, relevance = None \<rparr>"
          have "e' = storeMemory ?r (e\<lparr> world := w', uuid_supply := Suc (uuid_supply e) \<rparr>)"
               "outcome = Inr (''Successfully executed '' @ tool_name tool @ ''. Result: ''
                                @ stringify result)"
            using assms ToolAction Some \<open>(case safetyCheck tool of None \<Rightarrow> Inr True
                | Some check \<Rightarrow> check params) = Inr ok\<close> True x Inr
            by (auto simp: executeTool_def uuidv4_def Let_def)
          then have "messages (state e') = messages (state e)"
              "decisions (state e') = decisions (state e)" "config (state e') = config (state e)"
              "\<not> isl outcome" "memory (state e') = memory (state (storeMemory ?r e))"
            by (simp_all add: storeMemory_frame storeMemory_memory Let_def)
          moreover have "memory_type ?r = tool_result" by simp
          ultimately show ?thesis by blast
        qed
      qed
    qed
  qed
next
  case (PlanAction x y)
  then show ?thesis using assms by (auto simp: executeTool_def)
next
  case (ReplyAction x)
  then show ?thesis using assms by (auto simp: executeTool_def)
qed

lemma execute_decision_frame:
  assumes "execute_decision generate stringify msg decision e = (outcome, e')"
  shows "messages (state e') = messages (state e) \<and> decisions (state e') = decisions (state e)
         \<and> config (state e') = config (state e) \<and> (isl outcome \<longrightarrow> e' = e)
         \<and> (memory (state e') = memory (state e)
              \<or> (\<exists>r. memory_type r \<noteq> conversation
                     \<and> memory (state e') = memory (state (storeMemory r e))))"
proof (cases "decision_type decision")
  case tool_execution
  then have "executeTool stringify (action decision) e = (outcome, e')"
    using assms by (simp add: execute_decision_def)
  from executeTool_frame[OF this]
  have frame: "messages (state e') = messages (state e)" "decisions (state e') = decisions (state e)"
      "config (state e') = config (state e)" "isl outcome \<longrightarrow> e' = e"
    and mem: "memory (state e') = memory (state e)
              \<or> (\<exists>r. memory_type r = tool_result
                     \<and> memory (state e') = memory (state (storeMemory r e)))"
    by simp_all
  from mem have "memory (state e') = memory (state e)
              \<or> (\<exists>r. memory_type r \<noteq> conversation
                     \<and> memory (state e') = memory (state (storeMemory r e)))"
  proof
    assume "memory (state e') = memory (state e)"
    then show ?thesis ..
  next
    assume "\<exists>r. memory_type r = tool_result
                \<and> memory (state e') = memory (state (storeMemory r e))"
    then obtain r where "memory_type r = tool_result"
        "memory (state e') = memory (state (storeMemory r e))" by blast
    then have "memory_type r \<noteq> conversation
        \<and> memory (state e') = memory (state (storeMemory r e))" by simp
    then show ?thesis by blast
  qed
  with frame show ?thesis by simp
next
  case response_generation
  then show ?thesis using assms by (auto simp: execute_decision_def)
next
  case planning
  then show ?thesis using assms by (auto simp: execute_decision_def)
next
  case learning
  let ?r = "\<lparr> memory_id = uuid_supply e, memory_type = learning_note,
              memory_content = LearningNote msg, relevance = None \<rparr>"
  have "e' = storeMemory ?r (e\<lparr> state := (state e)\<lparr> performance := (performance (state e))
                \<lparr> learningProgress := learningProgress (performance (state e)) + 1 / 10 \<rparr> \<rparr>,
              uuid_supply := Suc (uuid_supply e) \<rparr>)" "\<not> isl outcome"
    using assms learning
    by (auto simp: execute_decision_def learnFromInteraction_def Let_def uuidv4_def)
  then have "messages (state e') = messages (state e)"
      "decisions (state e') = decisions (state e)" "config (state e') = config (state e)"
      "\<not> isl outcome" "memory (state e') = memory (state (storeMemory ?r e))"
    by (simp_all add: storeMemory_frame storeMemory_memory Let_def)
  moreover have "memory_type ?r \<noteq> conversation" by simp
  ultimately show ?thesis by blast
qed

lemma complete_request_logs:
  "messages (state (complete_request elapsed um d reply e)) =
     messages (state e) @ [\<lparr> message_id = uuid_supply e, role = Assistant, content = reply,
        metadata = Some \<lparr> decisionId = decision_id d, responseTime = elapsed \<rparr> \<rparr>]"
  "decisions (state (complete_request elapsed um d reply e)) = decisions (state e)"
  by (simp_all add: complete_request_def Let_def uuidv4_def storeMemory_frame
      updatePerformance_frame)

lemma complete_request_memory:
  "memory (state (complete_request elapsed um d reply e)) =
     memory (state (storeMemory
        \<lparr> memory_id = Suc (uuid_supply e), memory_type = conversation,
          memory_content = Conversation um
            \<lparr> message_id = uuid_supply e, role = Assistant, content = reply,
              metadata = Some \<lparr> decisionId = decision_id d, responseTime = elapsed \<rparr> \<rparr> d,
          relevance = None \<rparr> e))"
  by (simp add: complete_request_def Let_def uuidv4_def updatePerformance_frame
      storeMemory_memory)

text \<open>
  C3 (one decision, one assistant message and one conversation record per request). What
  the code does: \<open>processMessage\<close> appends the user message first and, when \<open>makeDecision\<close>
  returns, the decision. When the decided action then returns a text (an unknown tool, a
  safety check that returns false and an \<open>execute\<close> that raises are such texts), exactly
  one assistant message with that text follows the user message, and exactly one
  conversation record, which pairs the user message, the assistant message and the
  decision, is stored by one \<open>storeMemory\<close> on top of the memory that the action left;
  the action itself stores at most one record, and never a conversation record. When
  the action raises inside the \<open>try\<close> (a safety check that throws), the error text is
  returned, and the user message and the decision stay without an assistant message and
  with the memory as it was. Nothing is rolled back.
\<close>

theorem processMessage_logs:
  assumes recv: "receive_message msg e = (userMessage, e2)"
    and dec: "makeDecision classify msg e2 = (Inr decision, e3)"
    and exec: "execute_decision generate stringify msg decision (record_decision decision e3)
                 = (outcome, e5)"
    and res: "processMessage classify generate stringify elapsed msg e = (result, e')"
  shows "decisions (state e') = decisions (state e) @ [decision]
     \<and> (case outcome of
          Inr reply \<Rightarrow>
            result = Inr reply
            \<and> messages (state e') = messages (state e) @
                [userMessage,
                 \<lparr> message_id = uuid_supply e5, role = Assistant, content = reply,
                   metadata = Some \<lparr> decisionId = decision_id decision, responseTime = elapsed \<rparr> \<rparr>]
            \<and> memory (state e') =
                memory (state (storeMemory
                  \<lparr> memory_id = Suc (uuid_supply e5), memory_type = conversation,
                    memory_content = Conversation userMessage
                      \<lparr> message_id = uuid_supply e5, role = Assistant, content = reply,
                        metadata = Some \<lparr> decisionId = decision_id decision,
                                          responseTime = elapsed \<rparr> \<rparr> decision,
                    relevance = None \<rparr> e5))
            \<and> (memory (state e5) = memory (state e)
                 \<or> (\<exists>r. memory_type r \<noteq> conversation
                        \<and> memory (state e5) = memory (state (storeMemory r e))))
        | Inl err \<Rightarrow>
            result = Inr (''I encountered an error: '' @ message err)
            \<and> messages (state e') = messages (state e) @ [userMessage]
            \<and> memory (state e') = memory (state e))"
proof -
  have e2: "messages (state e2) = messages (state e) @ [userMessage]"
       "decisions (state e2) = decisions (state e)" "memory (state e2) = memory (state e)"
       "config (state e2) = config (state e)"
    using recv by (auto simp: receive_message_eq)
  have e3: "state e3 = state e2" using makeDecision_state[OF dec] .
  let ?e4 = "record_decision decision e3"
  have e4: "messages (state ?e4) = messages (state e) @ [userMessage]"
       "decisions (state ?e4) = decisions (state e) @ [decision]"
       "memory (state ?e4) = memory (state e)" "config (state ?e4) = config (state e)"
    by (simp_all add: record_decision_def e3 e2)
  have same: "memory (state (storeMemory r ?e4)) = memory (state (storeMemory r e))" for r
    by (simp add: storeMemory_memory e4)
  from execute_decision_frame[OF exec]
  have e5: "messages (state e5) = messages (state e) @ [userMessage]"
       "decisions (state e5) = decisions (state e) @ [decision]"
       "config (state e5) = config (state e)" "isl outcome \<longrightarrow> e5 = ?e4"
       "memory (state e5) = memory (state e)
          \<or> (\<exists>r. memory_type r \<noteq> conversation
                 \<and> memory (state e5) = memory (state (storeMemory r e)))"
    by (simp_all add: e4 same)
  show ?thesis
  proof (cases outcome)
    case (Inl err)
    then have "e5 = ?e4" using e5(4) by simp
    then show ?thesis using res recv dec exec Inl
      by (auto simp: processMessage_def updatePerformance_frame e4)
  next
    case (Inr reply)
    have r: "result = Inr reply" "e' = complete_request elapsed userMessage decision reply e5"
      using res recv dec exec Inr by (auto simp: processMessage_def)
    show ?thesis
      using e5(5)
      by (simp add: Inr r complete_request_logs complete_request_memory e5(1,2))
  qed
qed

text \<open>For a capacity of at least one the store of the conversation record is the append
  with the eviction of the oldest records, and the record is the newest of the memory.\<close>

lemma storeMemory_fifo:
  assumes "1 \<le> maxMemorySize (config (state e))"
  shows "memory (state (storeMemory m e)) =
           drop (length (memory (state e)) + 1 - nat (maxMemorySize (config (state e))))
             (memory (state e) @ [m])
         \<and> last (memory (state (storeMemory m e))) = m"
proof -
  define C where "C = nat (maxMemorySize (config (state e)))"
  have C: "maxMemorySize (config (state e)) = int C" "1 \<le> C"
    using assms by (simp_all add: C_def)
  have mem: "memory (state (storeMemory m e)) =
        drop (length (memory (state e)) + 1 - C) (memory (state e) @ [m])"
    by (rule storeMemory_pos[OF C])
  have "length (memory (state e)) + 1 - C < length (memory (state e) @ [m])"
    using C(2) by simp
  then have "last (drop (length (memory (state e)) + 1 - C) (memory (state e) @ [m]))
             = last (memory (state e) @ [m])"
    by (rule last_drop)
  then have "last (memory (state (storeMemory m e))) = m"
    by (simp only: mem last_snoc)
  then show ?thesis using mem by (simp only: C_def simp_thms)
qed

lemma show_nat_one: "show_nat (Suc 0) = ''1''"
  by code_simp

declare show_nat.simps [simp del]

lemmas eval_defs = show_nat_one processMessage_def receive_message_def makeDecision_def
  determineBestAction_def analyzeIntent_def getContext_def uuidv4_def record_decision_def
  execute_decision_def executeTool_def complete_request_def updatePerformance_def
  storeMemory_def slice_def sample_engine_def new_engine_def sample_config_def
  guarded_tool_def filepath_check_def file_intent_def plain_stringify_def Let_def

theorem processMessage_logs_witness:
  "fst (processMessage path_classifier no_generator plain_stringify 5 ''read it''
          (sample_engine filepath_check))
     = Inr ''Successfully executed Read File. Result: true''
   \<and> map role (messages (state (snd (processMessage path_classifier no_generator
          plain_stringify 5 ''read it'' (sample_engine filepath_check))))) = [User, Assistant]
   \<and> map memory_type (memory (state (snd (processMessage path_classifier no_generator
          plain_stringify 5 ''read it'' (sample_engine filepath_check)))))
       = [tool_result, conversation]
   \<and> fst (processMessage bare_classifier no_generator plain_stringify 5 ''read it''
          (sample_engine filepath_check))
     = Inr ''I encountered an error: Cannot read properties of undefined (reading 'filepath')''
   \<and> map role (messages (state (snd (processMessage bare_classifier no_generator
          plain_stringify 5 ''read it'' (sample_engine filepath_check))))) = [User]
   \<and> memory (state (snd (processMessage bare_classifier no_generator
          plain_stringify 5 ''read it'' (sample_engine filepath_check)))) = []"
proof -
  define E where "E = sample_engine filepath_check"
  define E2 where "E2 = snd (receive_message ''read it'' E)"
  define U where "U = fst (receive_message ''read it'' E)"
  have recv: "receive_message ''read it'' E = (U, E2)" by (simp add: U_def E2_def)
  define Dp where "Dp = \<lparr> decision_id = 1, decision_type = tool_execution,
      confidence = double (8 / 10),
      reasoning = ''Found 1 relevant tools for intent: file_operation'',
      action = ToolAction ''file_read'' (Some (JObj [(''filepath'', JStr ''/tmp/a'')])) \<rparr>"
  define Db where "Db = Dp\<lparr> action := ToolAction ''file_read'' None \<rparr>"
  have "fst (makeDecision path_classifier ''read it'' E2) = Inr Dp"
    by (simp add: E2_def E_def Dp_def path_classifier_def eval_defs)
  then have decp: "makeDecision path_classifier ''read it'' E2
                 = (Inr Dp, snd (makeDecision path_classifier ''read it'' E2))"
    by (metis prod.collapse)
  have "fst (makeDecision bare_classifier ''read it'' E2) = Inr Db"
    by (simp add: E2_def E_def Db_def Dp_def bare_classifier_def eval_defs)
  then have decb: "makeDecision bare_classifier ''read it'' E2
                 = (Inr Db, snd (makeDecision bare_classifier ''read it'' E2))"
    by (metis prod.collapse)
  let ?Xp = "execute_decision no_generator plain_stringify ''read it'' Dp
               (record_decision Dp (snd (makeDecision path_classifier ''read it'' E2)))"
  let ?Xb = "execute_decision no_generator plain_stringify ''read it'' Db
               (record_decision Db (snd (makeDecision bare_classifier ''read it'' E2)))"
  let ?Rp = "processMessage path_classifier no_generator plain_stringify 5 ''read it'' E"
  let ?Rb = "processMessage bare_classifier no_generator plain_stringify 5 ''read it'' E"
  have xp: "fst ?Xp = Inr ''Successfully executed Read File. Result: true''"
    by (simp add: E2_def E_def Dp_def path_classifier_def eval_defs)
  have mp: "map memory_type (memory (state (snd ?Xp))) = [tool_result]"
       "maxMemorySize (config (state (snd ?Xp))) = 1000"
       "length (memory (state (snd ?Xp))) = 1"
    by (simp_all add: E2_def E_def Dp_def path_classifier_def eval_defs)
  have xb: "fst ?Xb = Inl (TypeError ''Cannot read properties of undefined (reading 'filepath')'')"
    by (simp add: E2_def E_def Db_def Dp_def bare_classifier_def eval_defs)
  note p = processMessage_logs[OF recv decp surjective_pairing surjective_pairing,
             of no_generator plain_stringify 5]
  note b = processMessage_logs[OF recv decb surjective_pairing surjective_pairing,
             of no_generator plain_stringify 5]
  have E0: "messages (state E) = []" "memory (state E) = []"
    by (simp_all add: E_def sample_engine_def new_engine_def)
  have U: "role U = User" by (simp add: U_def receive_message_eq)
  from p xp mp have "fst ?Rp = Inr ''Successfully executed Read File. Result: true''
      \<and> map role (messages (state (snd ?Rp))) = [User, Assistant]
      \<and> map memory_type (memory (state (snd ?Rp))) = [tool_result, conversation]"
    by (simp add: E0 U storeMemory_memory slice_def Let_def)
  moreover from b xb have "fst ?Rb
       = Inr ''I encountered an error: Cannot read properties of undefined (reading 'filepath')''
      \<and> map role (messages (state (snd ?Rb))) = [User] \<and> memory (state (snd ?Rb)) = []"
    by (simp add: E0 U)
  ultimately show ?thesis by (simp add: E_def)
qed

text \<open>The specification's atomic triple fails for a request whose classifier names a file operation
  without entities: the safety check of the tool throws on the undefined parameters, and
  the request ends with the user message and the decision in the logs, no assistant
  message and no conversation record.\<close>

theorem processMessage_partial_triple_counterexample:
  "fst request_without_entities =
     Inr ''I encountered an error: Cannot read properties of undefined (reading 'filepath')''
   \<and> map role (messages (state (snd request_without_entities))) = [User]
   \<and> map decision_type (decisions (state (snd request_without_entities))) = [tool_execution]
   \<and> memory (state (snd request_without_entities)) = []"
  by (simp add: request_without_entities_def eval_defs)

section \<open>Properties of the state import\<close>

lemma importState_unparsable:
  "parse doc = None \<Longrightarrow> importState parse doc f = (Inl (Error ''Invalid state format''), f)"
  by (simp add: importState_def)

text \<open>
  C4 (import is all or nothing). The specification says that a structurally invalid document is
  rejected with the prior state and tool map unchanged. The document \<open>{}\<close> parses, so
  \<open>this.state\<close> is assigned and \<open>this.tools\<close> is cleared before \<open>importedState.config.tools\<close>
  raises: the import fails with \<open>Invalid state format\<close> and the engine is left with the
  state \<open>{}\<close> and no tools, whatever it held before.
\<close>

theorem importState_invalid_document_replaces_state:
  "importState (\<lambda>doc. if doc = ''{}'' then Some (JObj []) else None) ''{}'' (fields_of e)
     = (Inl (Error ''Invalid state format''),
        \<lparr> state_field = Raw (JObj []), tools_field = [] \<rparr>)"
  by (simp add: importState_def fields_of_def)

section \<open>Properties of the learning engine\<close>

text \<open>
  C10 (performance metrics without division by zero). For an empty history
  \<open>getPerformanceMetrics\<close> returns the four zeros; for a non-empty history the length is
  positive and each of the three averages is the finite quotient of its sum by the
  length.
\<close>

theorem getPerformanceMetrics_no_division_by_zero:
  "(performanceHistory le = [] \<longrightarrow>
      getPerformanceMetrics le =
        \<lparr> metrics_totalInteractions = 0, averageConfidence = Fin 0, successRate = Fin 0,
          metrics_averageResponseTime = Fin 0 \<rparr>)
   \<and> (performanceHistory le \<noteq> [] \<longrightarrow>
        0 < length (performanceHistory le)
        \<and> getPerformanceMetrics le =
            \<lparr> metrics_totalInteractions = length (performanceHistory le),
              averageConfidence =
                Fin (foldl (\<lambda>sum p. sum + entry_confidence p) 0 (performanceHistory le)
                     / of_nat (length (performanceHistory le))),
              successRate =
                Fin (of_nat (length (filter success (performanceHistory le)))
                     / of_nat (length (performanceHistory le))),
              metrics_averageResponseTime =
                Fin (foldl (\<lambda>sum p. sum + entry_responseTime p) 0 (performanceHistory le)
                     / of_nat (length (performanceHistory le))) \<rparr>)"
  by (simp add: getPerformanceMetrics_def Let_def js_div_def)

theorem getPerformanceMetrics_no_division_by_zero_witness:
  "getPerformanceMetrics new_learning_engine =
     \<lparr> metrics_totalInteractions = 0, averageConfidence = Fin 0, successRate = Fin 0,
       metrics_averageResponseTime = Fin 0 \<rparr>
   \<and> getPerformanceMetrics
        (analyzePerformance (decision_with (double (9 / 10))) steady_context
           new_learning_engine) =
     \<lparr> metrics_totalInteractions = 1, averageConfidence = Fin (double (9 / 10)),
       successRate = Fin 1, metrics_averageResponseTime = Fin 0 \<rparr>"
  using getPerformanceMetrics_no_division_by_zero [of new_learning_engine]
    getPerformanceMetrics_no_division_by_zero
      [of "analyzePerformance (decision_with (double (9 / 10))) steady_context
             new_learning_engine"]
  by (simp add: new_learning_engine_def analyzePerformance_def decision_with_def
      steady_context_def Let_def double_half double_seeds)

subsection \<open>The pattern table\<close>

lemma map_of_map_set_same: "map_of (map_set k v tbl) k = Some v"
  by (induction tbl) auto

lemma map_of_map_set_other: "k' \<noteq> k \<Longrightarrow> map_of (map_set k v tbl) k' = map_of tbl k'"
  by (induction tbl) auto

lemma learn_patterns_table:
  "patterns_table (snd (learnFromInteraction_learning msg resp d ctx le)) =
     fold (update_pattern d) (extractPatterns (content msg)) (patterns_table le)"
  by (simp add: learnFromInteraction_learning_def Let_def adaptBehavior_def
      analyzePerformance_def updatePatternRecognition_def storeLearningInsights_def
      split: sum.splits prod.splits)

lemma extractPatterns_help_me: "extractPatterns ''help me'' = [''help me'', ''help me'']"
  by (simp add: extractPatterns_def toLowerCase_def lower_char_def is_space_def keyPhrases_def Let_def)

lemma extractPatterns_help_me_bang: "extractPatterns ''help me!'' = [''help me!'', ''help me'']"
  by (simp add: extractPatterns_def toLowerCase_def lower_char_def is_space_def keyPhrases_def Let_def)

lemma update_pattern_unseen:
  "map_of tbl pat = None \<Longrightarrow>
   map_of (update_pattern d pat tbl) pat =
     Some \<lparr> patterns = [pat], response = decision_type_name (decision_type d),
            pattern_confidence = double (1 / 2), occurrences = Some 1 \<rparr>"
  by (simp add: update_pattern_def map_of_map_set_same)

lemma update_pattern_seen:
  "map_of tbl pat = Some pd \<Longrightarrow>
   map_of (update_pattern d pat tbl) pat =
     Some (pd\<lparr> occurrences := Some ((case occurrences pd of None \<Rightarrow> 0 | Some n \<Rightarrow> n) + 1),
              pattern_confidence :=
                (if confidence d > double (7 / 10)
                 then min 1 (double (pattern_confidence pd + double (1 / 10)))
                 else max (double (1 / 10))
                        (double (pattern_confidence pd - double (1 / 20)))) \<rparr>)"
  by (simp add: update_pattern_def map_of_map_set_same)

text \<open>
  C7 (two learning steps on the key \<open>help me\<close>). What the code does: from a table in
  which the key is unseen, a learning step on the message \<open>help me\<close> with a decision of
  confidence above 0.7 leaves the entry with confidence 0.6 and occurrence count 2, and a
  second step with a decision of confidence at most 0.7 leaves it with confidence
  0.49999999999999994 and occurrence count 4. The key is extracted twice from the
  message, as a bigram and as a key phrase, and the table is updated once per extracted
  key: the first creates the entry at 0.5 with count 1, every further one counts and
  adjusts. The confidences are doubles: 0.5 + 0.1 is the double 0.6, 0.6 - 0.05 is
  0.5499999999999999, and 0.5499999999999999 - 0.05 is 0.49999999999999994.
\<close>

theorem learn_help_me_twice:
  assumes unseen: "map_of (patterns_table le) ''help me'' = None"
    and msg: "content msg1 = ''help me''" "content msg2 = ''help me''"
    and hi: "confidence d1 > double (7 / 10)" and lo: "\<not> confidence d2 > double (7 / 10)"
    and le1: "le1 = snd (learnFromInteraction_learning msg1 resp1 d1 ctx1 le)"
    and le2: "le2 = snd (learnFromInteraction_learning msg2 resp2 d2 ctx2 le1)"
  shows "map_of (patterns_table le1) ''help me'' =
           Some \<lparr> patterns = [''help me''], response = decision_type_name (decision_type d1),
                  pattern_confidence = double (6 / 10), occurrences = Some 2 \<rparr>
       \<and> map_of (patterns_table le2) ''help me'' =
           Some \<lparr> patterns = [''help me''], response = decision_type_name (decision_type d1),
                  pattern_confidence = double (49999999999999994 / 100000000000000000),
                  occurrences = Some 4 \<rparr>"
proof -
  let ?k = "''help me''"
  have t1: "patterns_table le1 = update_pattern d1 ?k (update_pattern d1 ?k (patterns_table le))"
    by (simp add: le1 learn_patterns_table msg extractPatterns_help_me)
  have t2: "patterns_table le2 = update_pattern d2 ?k (update_pattern d2 ?k (patterns_table le1))"
    by (simp add: le2 learn_patterns_table msg extractPatterns_help_me)
  have a: "map_of (update_pattern d1 ?k (patterns_table le)) ?k =
             Some \<lparr> patterns = [?k], response = decision_type_name (decision_type d1),
                    pattern_confidence = double (1 / 2), occurrences = Some 1 \<rparr>"
    by (rule update_pattern_unseen[OF unseen])
  have "map_of (patterns_table le1) ?k =
             Some \<lparr> patterns = [?k], response = decision_type_name (decision_type d1),
                    pattern_confidence = min 1 (double (double (1 / 2) + double (1 / 10))),
                    occurrences = Some 2 \<rparr>"
    using hi by (simp add: t1 update_pattern_seen[OF a])
  then have b: "map_of (patterns_table le1) ?k =
             Some \<lparr> patterns = [?k], response = decision_type_name (decision_type d1),
                    pattern_confidence = double (6 / 10), occurrences = Some 2 \<rparr>"
    by (simp only: double_scenario(1))
  have "map_of (update_pattern d2 ?k (patterns_table le1)) ?k =
             Some \<lparr> patterns = [?k], response = decision_type_name (decision_type d1),
                    pattern_confidence =
                      max (double (1 / 10)) (double (double (6 / 10) - double (1 / 20))),
                    occurrences = Some 3 \<rparr>"
    using lo by (simp add: update_pattern_seen[OF b])
  then have c: "map_of (update_pattern d2 ?k (patterns_table le1)) ?k =
             Some \<lparr> patterns = [?k], response = decision_type_name (decision_type d1),
                    pattern_confidence = double (5499999999999999 / 10000000000000000),
                    occurrences = Some 3 \<rparr>"
    by (simp only: double_scenario(2))
  have "map_of (patterns_table le2) ?k =
             Some \<lparr> patterns = [?k], response = decision_type_name (decision_type d1),
                    pattern_confidence =
                      max (double (1 / 10))
                        (double (double (5499999999999999 / 10000000000000000)
                                 - double (1 / 20))),
                    occurrences = Some 4 \<rparr>"
    using lo by (simp add: t2 update_pattern_seen[OF c])
  then have d: "map_of (patterns_table le2) ?k =
             Some \<lparr> patterns = [?k], response = decision_type_name (decision_type d1),
                    pattern_confidence = double (49999999999999994 / 100000000000000000),
                    occurrences = Some 4 \<rparr>"
    by (simp only: double_scenario(3))
  from b d show ?thesis by (rule conjI)
qed

lemma seeded_no_help_me: "map_of (patterns_table new_learning_engine) ''help me'' = None"
  by (simp add: new_learning_engine_def initializePatterns_def)

lemma double_decisions:
  "double (9 / 10) > double (7 / 10)" "\<not> double (3 / 10) > double (7 / 10)"
  by code_simp+

theorem learn_help_me_twice_witness:
  "map_of (patterns_table after_first) ''help me'' =
           Some \<lparr> patterns = [''help me''], response = ''response_generation'',
                  pattern_confidence = double (6 / 10), occurrences = Some 2 \<rparr>
       \<and> map_of (patterns_table after_second) ''help me'' =
           Some \<lparr> patterns = [''help me''], response = ''response_generation'',
                  pattern_confidence = double (49999999999999994 / 100000000000000000),
                  occurrences = Some 4 \<rparr>"
  using learn_help_me_twice[OF seeded_no_help_me _ _ _ _ after_first_def after_second_def]
  by (simp add: text_message_def decision_with_def double_decisions)

text \<open>The value after the second step is the double next below one half.\<close>

lemma double_below_half:
  "double (49999999999999994 / 100000000000000000) = 1 / 2 - 1 / 2 ^ 54"
  by code_simp

text \<open>The specification's scenario fails on the message \<open>help me\<close>: after the first step
  the occurrence count is not 1, and after the second the confidence is not 0.55 (and
  the count not 2).\<close>

theorem learn_help_me_counterexample:
  "map_option occurrences (map_of (patterns_table after_first) ''help me'') \<noteq> Some (Some 1)
   \<and> map_option pattern_confidence (map_of (patterns_table after_second) ''help me'')
       \<noteq> Some (double (55 / 100))
   \<and> map_option occurrences (map_of (patterns_table after_second) ''help me'')
       \<noteq> Some (Some 2)"
  by code_simp

text \<open>A message from which the key is extracted once only (\<open>help me!\<close>: the bigram is
  \<open>help me!\<close>, the key phrase is found) creates the entry at 0.5 with count 1.\<close>

lemma update_pattern_other:
  "k \<noteq> pat \<Longrightarrow> map_of (update_pattern d pat tbl) k = map_of tbl k"
  by (simp add: update_pattern_def map_of_map_set_other split: option.splits)

lemma learn_help_me_once:
  assumes "map_of (patterns_table le) ''help me'' = None" and "content msg = ''help me!''"
  shows "map_of (patterns_table (snd (learnFromInteraction_learning msg resp d ctx le))) ''help me''
           = Some \<lparr> patterns = [''help me''], response = decision_type_name (decision_type d),
                    pattern_confidence = double (1 / 2), occurrences = Some 1 \<rparr>"
proof -
  have "map_of (update_pattern d ''help me!'' (patterns_table le)) ''help me'' = None"
    using assms(1) by (simp add: update_pattern_other)
  then show ?thesis
    by (simp add: learn_patterns_table assms(2) extractPatterns_help_me_bang
        update_pattern_unseen)
qed

lemma in_range_map_set:
  "confidence_in_range tbl \<Longrightarrow> 1 / 10 \<le> pattern_confidence pd \<Longrightarrow> pattern_confidence pd \<le> 1
   \<Longrightarrow> confidence_in_range (map_set k pd tbl)"
  by (induction tbl) (auto simp: confidence_in_range_def)

lemma in_range_lookup:
  "confidence_in_range tbl \<Longrightarrow> map_of tbl k = Some pd
   \<Longrightarrow> 1 / 10 \<le> pattern_confidence pd \<and> pattern_confidence pd \<le> 1"
  by (auto simp: confidence_in_range_def list_all_iff dest!: map_of_SomeD)

text \<open>The two adjustments keep a confidence of the range in the range, in doubles.\<close>

lemma raise_in_range:
  assumes "1 / 10 \<le> c" and "c \<le> 1"
  shows "1 / 10 \<le> min 1 (double (c + double (1 / 10)))
         \<and> min 1 (double (c + double (1 / 10))) \<le> 1"
proof -
  have "2 powi (- 3) \<le> c + double (1 / 10)" "c + double (1 / 10) < 2 powi 1"
    using assms by (simp_all add: double_tenth)
  from double_between[OF this] have "1 / 8 \<le> double (c + double (1 / 10))" by simp
  then show ?thesis by simp
qed

lemma lower_in_range:
  assumes "1 / 10 \<le> c" and "c \<le> 1"
  shows "1 / 10 \<le> max (double (1 / 10)) (double (c - double (1 / 20)))
         \<and> max (double (1 / 10)) (double (c - double (1 / 20))) \<le> 1"
proof -
  have "2 powi (- 5) \<le> c - double (1 / 20)" "c - double (1 / 20) < 2 powi 0"
    using assms by (simp_all add: double_twentieth)
  from double_between[OF this] have "double (c - double (1 / 20)) \<le> 1" by simp
  moreover have "1 / 10 \<le> double (1 / 10)" "double (1 / 10) \<le> 1"
    by (simp_all add: double_tenth)
  ultimately show ?thesis by simp
qed

lemma in_range_update_pattern:
  assumes "confidence_in_range tbl"
  shows "confidence_in_range (update_pattern d pat tbl)"
proof (cases "map_of tbl pat")
  case None
  then show ?thesis using assms
    by (simp add: update_pattern_def in_range_map_set double_half)
next
  case (Some pd)
  from in_range_lookup[OF assms Some]
  have c: "1 / 10 \<le> pattern_confidence pd" "pattern_confidence pd \<le> 1" by simp_all
  show ?thesis
  proof (cases "confidence d > double (7 / 10)")
    case True
    then show ?thesis using assms Some raise_in_range[OF c]
      by (simp add: update_pattern_def in_range_map_set)
  next
    case False
    then show ?thesis using assms Some lower_in_range[OF c]
      by (simp add: update_pattern_def in_range_map_set)
  qed
qed

lemma in_range_fold:
  "confidence_in_range tbl \<Longrightarrow> confidence_in_range (fold (update_pattern d) pats tbl)"
  by (induction pats arbitrary: tbl) (simp_all add: in_range_update_pattern)

lemma in_range_seeded: "confidence_in_range (initializePatterns [])"
  by (simp add: initializePatterns_def confidence_in_range_def double_seeds)

text \<open>
  C8 (confidence stays in range). What the code guarantees: in every engine that the constructor,
  learning steps and \<open>reset\<close> produce, the confidence of every entry of the pattern table
  lies between 0.1 and 1. \<open>importLearningData\<close> installs the table of its document as
  it is and is not among these operations.
\<close>

theorem reachable_confidence_in_range:
  "reachable le \<Longrightarrow> confidence_in_range (patterns_table le)"
proof (induction rule: reachable.induct)
  case constructed
  then show ?case by (simp add: new_learning_engine_def in_range_seeded)
next
  case (learned le msg resp decision ctx)
  then show ?case by (simp add: learn_patterns_table in_range_fold)
next
  case (was_reset le)
  then show ?case by (simp add: reset_def in_range_seeded)
qed

theorem reachable_confidence_in_range_witness:
  "reachable (reset after_first) \<and> confidence_in_range (patterns_table (reset after_first))
   \<and> reachable after_first \<and> confidence_in_range (patterns_table after_first)"
proof -
  have r1: "reachable after_first"
    unfolding after_first_def by (rule reachable.learned[OF reachable.constructed])
  have r2: "reachable (reset after_first)" by (rule reachable.was_reset[OF r1])
  show ?thesis
    using r1 r2 reachable_confidence_in_range[OF r1] reachable_confidence_in_range[OF r2] by simp
qed

text \<open>The range is not kept by the operation \<open>importLearningData\<close>: a document
  whose table has an entry of confidence 5 leaves that entry in the engine.\<close>

theorem import_breaks_confidence_range_counterexample:
  "\<not> confidence_in_range
        (patterns_table (importLearningData (Some overconfident_document) new_learning_engine))"
  by (simp add: importLearningData_def overconfident_document_def new_Map_def
      confidence_in_range_def)

subsection \<open>The adaptation pass\<close>

lemma applicable_rules_find:
  "applicable_rules rules ctx =
     (case find (\<lambda>rule. isl (call_condition rule ctx)) rules of
        Some rule \<Rightarrow> Inl (projl (call_condition rule ctx))
      | None \<Rightarrow> Inr (filter (\<lambda>rule. call_condition rule ctx = Inr True) rules))"
proof (induction rules)
  case Nil
  show ?case by simp
next
  case (Cons rule rules)
  show ?case
  proof (cases "call_condition rule ctx")
    case (Inl err)
    then show ?thesis by simp
  next
    case (Inr holds)
    then show ?thesis using Cons.IH by (simp split: option.splits)
  qed
qed

text \<open>
  C9 (failures of single rules). What the code does: \<open>adaptBehavior\<close> has no handler of
  its own. When the condition of some rule of the registry raises on the context (or is
  not a function), the pass raises the error of the first such rule in the order of the
  registry, and no rule is executed; when every condition returns, the rules whose
  condition holds are executed in ascending order of priority, rules of equal priority
  in the order of the registry.
\<close>

theorem adaptBehavior_all_or_nothing:
  "adaptBehavior ctx le =
     (case find (\<lambda>rule. isl (call_condition rule ctx)) (map snd (adaptationRules le)) of
        Some rule \<Rightarrow> (Inl (projl (call_condition rule ctx)), le)
      | None \<Rightarrow>
          (Inr (), le\<lparr> console := console le @ map executeAdaptationRule
              (sort_key priority
                 (filter (\<lambda>rule. call_condition rule ctx = Inr True)
                    (map snd (adaptationRules le)))) \<rparr>))"
  by (simp add: adaptBehavior_def applicable_rules_find split: option.splits)

text \<open>The order of execution is that of the priorities, and it is stable.\<close>

lemma executed_in_priority_order:
  "sorted (map priority (sort_key priority rules))
   \<and> filter (\<lambda>rule. priority rule = p) (sort_key priority rules)
       = filter (\<lambda>rule. priority rule = p) rules"
  by (simp add: sorted_sort_key sort_key_stable)

theorem adaptBehavior_all_or_nothing_witness:
  "fst (adaptBehavior broken_context new_learning_engine)
     = Inl (TypeError ''Cannot read properties of undefined (reading 'averageResponseTime')'')
   \<and> console (snd (adaptBehavior broken_context new_learning_engine)) = []
   \<and> adaptBehavior slow_context new_learning_engine =
       (Inr (), new_learning_engine\<lparr> console :=
          [Log ''Adapting: Reducing response complexity'',
           Log ''Adapting: Increasing safety checks''] \<rparr>)"
proof -
  have rules: "map snd (adaptationRules new_learning_engine) =
      [\<lparr> condition = Some response_time_condition, rule_action = ''reduce_complexity'',
         priority = 1 \<rparr>,
       \<lparr> condition = Some success_rate_condition, rule_action = ''increase_safety_checks'',
         priority = 2 \<rparr>,
       \<lparr> condition = Some memory_condition, rule_action = ''cleanup_memory'', priority = 3 \<rparr>]"
    by (simp add: new_learning_engine_def initializeAdaptationRules_def)
  have empty: "console new_learning_engine = []"
    by (simp add: new_learning_engine_def)
  have 1: "adaptBehavior broken_context new_learning_engine =
       (Inl (TypeError ''Cannot read properties of undefined (reading 'averageResponseTime')''),
        new_learning_engine)"
    using adaptBehavior_all_or_nothing [of broken_context new_learning_engine]
    by (simp add: rules call_condition_def response_time_condition_def broken_context_def)
  have 2: "adaptBehavior slow_context new_learning_engine =
       (Inr (), new_learning_engine\<lparr> console :=
          [Log ''Adapting: Reducing response complexity'',
           Log ''Adapting: Increasing safety checks''] \<rparr>)"
    using adaptBehavior_all_or_nothing [of slow_context new_learning_engine]
    by (simp add: rules empty call_condition_def response_time_condition_def
        success_rate_condition_def memory_condition_def slow_context_def js_div_def
        executeAdaptationRule_def)
  from 1 2 show ?thesis by (simp add: empty)
qed

text \<open>The rules of an imported document have no condition: after an import of rules the
  pass raises on every context.\<close>

lemma adaptBehavior_after_import:
  "adaptBehavior ctx
     (importLearningData
        (Some \<lparr> doc_patterns = None, doc_performanceHistory = None,
                doc_adaptationRules = Some [(''memory_optimization'', ''cleanup_memory'', 3)] \<rparr>)
        le)
   = (Inl (TypeError ''rule.condition is not a function''),
      le\<lparr> adaptationRules := [(''memory_optimization'',
            \<lparr> condition = None, rule_action = ''cleanup_memory'', priority = 3 \<rparr>)] \<rparr>)"
  by (simp add: adaptBehavior_def importLearningData_def new_Map_def call_condition_def)

text \<open>The specification's per-rule recovery fails on the seeded rules for a context that has more than
  1000 memory records and no \<open>performance\<close>: the memory rule applies, but the condition of
  the first rule raises and the pass ends without executing it.\<close>

theorem adaptBehavior_counterexample:
  "call_condition \<lparr> condition = Some memory_condition, rule_action = ''cleanup_memory'', priority = 3 \<rparr>
      broken_context = Inr True
   \<and> adaptBehavior broken_context new_learning_engine =
       (Inl (TypeError ''Cannot read properties of undefined (reading 'averageResponseTime')''),
        new_learning_engine)"
  by (simp add: adaptBehavior_def new_learning_engine_def initializeAdaptationRules_def
      call_condition_def memory_condition_def response_time_condition_def broken_context_def)

end
